theory Spec2Isabelle
  imports Main
begin

section \<open>Python values\<close>

text \<open>
  The module \<^verbatim>\<open>inquirer/questions.py\<close> is dynamically typed: a property of a question may
  hold a literal, a format string or a function object, and a candidate answer may be any
  object. The values that occur are collected in one datatype. A function object is a
  reference \<open>PFunc i\<close> into a store of function bodies (the type \<open>funs\<close> below), so that
  \<^verbatim>\<open>callable(prop)\<close> is a test on the value. \<open>PTagged label value\<close> is an instance of the class
  \<^verbatim>\<open>TaggedValue\<close>. Floats, bytes, dicts and objects of other classes are outside the model.
\<close>

datatype pyval =
    PNone
  | PBool bool
  | PInt int
  | PStr string
  | PList "pyval list"
  | PTuple "pyval list"
  | PTagged pyval pyval
  | PFunc nat

text \<open>
  Exceptions are values. \<open>ValidationError v\<close> is \<^verbatim>\<open>errors.ValidationError(v)\<close>; the builtin
  exceptions carry what the program can observe of them. \<open>OtherException\<close> stands for any
  further subclass of \<^verbatim>\<open>Exception\<close> that a user function raises, \<open>BaseExceptionOnly\<close> for
  an exception that is not an instance of \<^verbatim>\<open>Exception\<close> (\<^verbatim>\<open>KeyboardInterrupt\<close>,
  \<^verbatim>\<open>SystemExit\<close>). \<open>Unsupported\<close> is not a Python exception: it marks a computation of
  the Python runtime that this model does not describe (see \<open>py_str\<close> and \<open>str_format\<close>);
  no handler catches it.
\<close>

datatype exn =
    ValidationError pyval
  | KeyError string
  | IndexError
  | ValueError
  | TypeError
  | AssertionError
  | OtherException string
  | BaseExceptionOnly string
  | Unsupported

fun isinstance_ValidationError :: "exn \<Rightarrow> bool" where
  "isinstance_ValidationError (ValidationError v) = True"
| "isinstance_ValidationError e = False"

fun isinstance_Exception :: "exn \<Rightarrow> bool" where
  "isinstance_Exception (BaseExceptionOnly s) = False"
| "isinstance_Exception Unsupported = False"
| "isinstance_Exception e = True"

type_synonym answers = "string \<rightharpoonup> pyval"

type_synonym funs = "nat \<Rightarrow> answers \<Rightarrow> pyval list \<Rightarrow> exn + pyval"

text \<open>\<^verbatim>\<open>callable(v)\<close>, \<^verbatim>\<open>isinstance(v, str)\<close> and the truth value \<^verbatim>\<open>bool(v)\<close>.\<close>

fun callable :: "pyval \<Rightarrow> bool" where
  "callable (PFunc i) = True"
| "callable v = False"

fun isinstance_str :: "pyval \<Rightarrow> bool" where
  "isinstance_str (PStr s) = True"
| "isinstance_str v = False"

fun truthy :: "pyval \<Rightarrow> bool" where
  "truthy PNone = False"
| "truthy (PBool b) = b"
| "truthy (PInt i) = (i \<noteq> 0)"
| "truthy (PStr s) = (s \<noteq> [])"
| "truthy (PList xs) = (xs \<noteq> [])"
| "truthy (PTuple xs) = (xs \<noteq> [])"
| "truthy (PTagged l v) = True"
| "truthy (PFunc i) = True"

subsection \<open>Equality\<close>

text \<open>
  \<^verbatim>\<open>a == b\<close>. The class \<^verbatim>\<open>TaggedValue\<close> defines
  \<^verbatim>\<open>
    def __eq__(self, other):
        if isinstance(other, TaggedValue):
            return self.value == other.value
        return self.value == other
    def __ne__(self, other):
        return not self.__eq__(other)
  \<close>
  With a \<^verbatim>\<open>TaggedValue\<close> on the left this method runs. With a builtin value on the left
  and a \<^verbatim>\<open>TaggedValue\<close> on the right, the builtin's \<^verbatim>\<open>__eq__\<close> returns
  \<^verbatim>\<open>NotImplemented\<close> and Python calls the reflected method of the right operand, which is
  the same \<^verbatim>\<open>__eq__\<close>. Among builtin values \<^verbatim>\<open>bool\<close> is a subclass of \<^verbatim>\<open>int\<close>
  (\<^verbatim>\<open>True == 1\<close>), lists and tuples compare element by element, function objects by
  identity, and values of different kinds are unequal.
\<close>

fun is_TaggedValue :: "pyval \<Rightarrow> bool" where
  "is_TaggedValue (PTagged l v) = True"
| "is_TaggedValue v = False"

function (sequential) py_eq :: "pyval \<Rightarrow> pyval \<Rightarrow> bool"
  and py_eq_list :: "pyval list \<Rightarrow> pyval list \<Rightarrow> bool" where
  "py_eq (PTagged l v) (PTagged l' v') = py_eq v v'"
| "py_eq (PTagged l v) other = py_eq v other"
| "py_eq other (PTagged l v) = py_eq v other"
| "py_eq PNone PNone = True"
| "py_eq (PBool a) (PBool b) = (a = b)"
| "py_eq (PBool a) (PInt j) = ((if a then 1 else 0) = j)"
| "py_eq (PInt i) (PBool b) = (i = (if b then 1 else 0))"
| "py_eq (PInt i) (PInt j) = (i = j)"
| "py_eq (PStr s) (PStr t) = (s = t)"
| "py_eq (PList xs) (PList ys) = py_eq_list xs ys"
| "py_eq (PTuple xs) (PTuple ys) = py_eq_list xs ys"
| "py_eq (PFunc i) (PFunc j) = (i = j)"
| "py_eq a b = False"
| "py_eq_list [] [] = True"
| "py_eq_list (x # xs) (y # ys) = (py_eq x y \<and> py_eq_list xs ys)"
| "py_eq_list xs ys = False"
  by pat_completeness auto
termination
  by (relation "measure (\<lambda>s. case s of Inl (a, b) \<Rightarrow> size a + size b
                                  | Inr (xs, ys) \<Rightarrow> size_list size xs + size_list size ys)") auto

text \<open>\<^verbatim>\<open>a != b\<close>: \<^verbatim>\<open>TaggedValue.__ne__\<close> of whichever operand is a \<^verbatim>\<open>TaggedValue\<close> (the left
  one first), the builtin inequality otherwise.\<close>

fun TaggedValue_ne :: "pyval \<Rightarrow> pyval \<Rightarrow> bool" where
  "TaggedValue_ne self other = (\<not> py_eq self other)"

fun py_ne :: "pyval \<Rightarrow> pyval \<Rightarrow> bool" where
  "py_ne (PTagged l v) other = TaggedValue_ne (PTagged l v) other"
| "py_ne other (PTagged l v) = TaggedValue_ne (PTagged l v) other"
| "py_ne a b = (\<not> py_eq a b)"

subsection \<open>String forms\<close>

text \<open>
  \<^verbatim>\<open>str(v)\<close> and \<^verbatim>\<open>repr(v)\<close> as CPython computes them. A \<open>string\<close> is a list of
  characters with code points below 256. \<^verbatim>\<open>TaggedValue.__str__\<close> returns the label and
  \<^verbatim>\<open>TaggedValue.__repr__\<close> the value; Python raises \<^verbatim>\<open>TypeError\<close> when either is
  not a string. The printed form of a function object contains its address and is not modelled.
\<close>

definition digit_char :: "nat \<Rightarrow> char" where
  "digit_char n = ''0123456789abcdef'' ! n"

fun str_nat :: "nat \<Rightarrow> string" where
  "str_nat n = (if n < 10 then [digit_char n] else str_nat (n div 10) @ [digit_char (n mod 10)])"

declare str_nat.simps [simp del]

definition str_int :: "int \<Rightarrow> string" where
  "str_int i = (if i < 0 then CHR ''-'' # str_nat (nat (- i)) else str_nat (nat i))"

definition repr_quote :: "string \<Rightarrow> char" where
  "repr_quote s = (if CHR 0x27 \<in> set s \<and> CHR 0x22 \<notin> set s then CHR 0x22 else CHR 0x27)"

definition unprintable :: "char \<Rightarrow> bool" where
  "unprintable c = (let n = (of_char c :: nat) in n < 32 \<or> (127 \<le> n \<and> n \<le> 160) \<or> n = 173)"

definition repr_char :: "char \<Rightarrow> char \<Rightarrow> string" where
  "repr_char q c =
     (if c = q \<or> c = CHR 0x5C then [CHR 0x5C, c]
      else if c = CHR 0x09 then [CHR 0x5C, CHR ''t'']
      else if c = CHR 0x0A then [CHR 0x5C, CHR ''n'']
      else if c = CHR 0x0D then [CHR 0x5C, CHR ''r'']
      else if unprintable c
        then [CHR 0x5C, CHR ''x'', digit_char (of_char c div 16), digit_char (of_char c mod 16)]
      else [c])"

definition repr_str :: "string \<Rightarrow> string" where
  "repr_str s = (let q = repr_quote s in [q] @ concat (map (repr_char q) s) @ [q])"

fun join :: "string \<Rightarrow> string list \<Rightarrow> string" where
  "join d [] = []"
| "join d [x] = x"
| "join d (x # y # ys) = x @ d @ join d (y # ys)"

text \<open>The results of a list of computations, or the first exception among them.\<close>

fun sequence :: "(exn + 'a) list \<Rightarrow> exn + 'a list" where
  "sequence [] = Inr []"
| "sequence (Inl e # rs) = Inl e"
| "sequence (Inr x # rs) = (case sequence rs of Inl e \<Rightarrow> Inl e | Inr xs \<Rightarrow> Inr (x # xs))"

fun py_repr :: "pyval \<Rightarrow> exn + string" where
  "py_repr PNone = Inr ''None''"
| "py_repr (PBool b) = Inr (if b then ''True'' else ''False'')"
| "py_repr (PInt i) = Inr (str_int i)"
| "py_repr (PStr s) = Inr (repr_str s)"
| "py_repr (PList xs) =
     (case sequence (map py_repr xs) of Inl e \<Rightarrow> Inl e
      | Inr rs \<Rightarrow> Inr (''['' @ join '', '' rs @ '']''))"
| "py_repr (PTuple xs) =
     (case sequence (map py_repr xs) of Inl e \<Rightarrow> Inl e
      | Inr rs \<Rightarrow> Inr (''('' @ join '', '' rs @ (if length rs = 1 then '',)'' else '')'')))"
| "py_repr (PTagged l v) = (case v of PStr s \<Rightarrow> Inr s | _ \<Rightarrow> Inl TypeError)"
| "py_repr (PFunc i) = Inl Unsupported"

fun py_str :: "pyval \<Rightarrow> exn + string" where
  "py_str (PStr s) = Inr s"
| "py_str (PTagged l v) = (case l of PStr s \<Rightarrow> Inr s | _ \<Rightarrow> Inl TypeError)"
| "py_str v = py_repr v"

subsection \<open>Format strings\<close>

text \<open>
  \<^verbatim>\<open>template.format(**kwargs)\<close> with keyword arguments only, as \<^verbatim>\<open>_solve\<close> calls it.
  CPython reads the template from left to right: literal text is copied, \<^verbatim>\<open>{{\<close> and
  \<^verbatim>\<open>}}\<close> stand for one brace, a single \<^verbatim>\<open>}\<close> or an unclosed \<^verbatim>\<open>{\<close> raises
  \<^verbatim>\<open>ValueError\<close>, and a replacement field \<^verbatim>\<open>{name}\<close> is rendered as soon as its closing
  brace is read, before the rest of the template is looked at. A field with an empty or
  numeric name asks for a positional argument, of which there are none (\<^verbatim>\<open>IndexError\<close>);
  any other name is looked up among the keyword arguments (\<^verbatim>\<open>KeyError\<close> when absent) and
  the value is rendered by \<^verbatim>\<open>format(value, "")\<close>, which is \<^verbatim>\<open>str(value)\<close> for the values
  of the model. Fields with an attribute or index lookup, a conversion or a format
  specification (\<^verbatim>\<open>.\<close>, \<^verbatim>\<open>[\<close>, \<^verbatim>\<open>!\<close>, \<^verbatim>\<open>:\<close> inside the braces) and numeric names of ten
  digits or more are not modelled.

  The second argument of \<open>str_format_from\<close> is \<open>None\<close> in literal text and \<open>Some acc\<close>
  inside a replacement field, \<open>acc\<close> being the characters of the field name read so far,
  last one first.
\<close>

definition is_digit :: "char \<Rightarrow> bool" where
  "is_digit c = (c \<in> set ''0123456789'')"

definition format_field :: "answers \<Rightarrow> string \<Rightarrow> exn + string" where
  "format_field kwargs field_name =
     (if field_name = [] then Inl IndexError
      else if list_all is_digit field_name
        then (if length field_name \<le> 9 then Inl IndexError else Inl Unsupported)
      else (case kwargs field_name of
              None \<Rightarrow> Inl (KeyError field_name)
            | Some v \<Rightarrow> py_str v))"

fun str_format_from :: "answers \<Rightarrow> string option \<Rightarrow> string \<Rightarrow> exn + string" where
  "str_format_from kwargs None [] = Inr []"
| "str_format_from kwargs None (c # cs) =
     (if c = CHR ''{'' then
        (case cs of
           [] \<Rightarrow> Inl ValueError
         | d # ds \<Rightarrow>
             if d = CHR ''{''
             then (case str_format_from kwargs None ds of
                     Inl e \<Rightarrow> Inl e | Inr r \<Rightarrow> Inr (CHR ''{'' # r))
             else str_format_from kwargs (Some []) cs)
      else if c = CHR ''}'' then
        (case cs of
           [] \<Rightarrow> Inl ValueError
         | d # ds \<Rightarrow>
             if d = CHR ''}''
             then (case str_format_from kwargs None ds of
                     Inl e \<Rightarrow> Inl e | Inr r \<Rightarrow> Inr (CHR ''}'' # r))
             else Inl ValueError)
      else (case str_format_from kwargs None cs of
              Inl e \<Rightarrow> Inl e | Inr r \<Rightarrow> Inr (c # r)))"
| "str_format_from kwargs (Some acc) [] = Inl ValueError"
| "str_format_from kwargs (Some acc) (c # cs) =
     (if c = CHR ''{'' then Inl ValueError
      else if c \<in> set ''.[!:'' then Inl Unsupported
      else if c = CHR ''}'' then
        (case format_field kwargs (rev acc) of
           Inl e \<Rightarrow> Inl e
         | Inr s \<Rightarrow> (case str_format_from kwargs None cs of
                       Inl e \<Rightarrow> Inl e | Inr r \<Rightarrow> Inr (s @ r)))
      else str_format_from kwargs (Some (c # acc)) cs)"

definition str_format :: "string \<Rightarrow> answers \<Rightarrow> exn + string" where
  "str_format template kwargs = str_format_from kwargs None template"

section \<open>Questions\<close>

text \<open>
  An instance of \<^verbatim>\<open>Question\<close>. A field \<^verbatim>\<open>_f\<close> of the class is the field \<open>u_f\<close> of the
  record. The dict \<^verbatim>\<open>answers\<close> is the context shared with the driver, who assigns and
  updates it between calls; the methods below only read it.
\<close>

record question =
  name :: string
  u_message :: pyval
  u_choices :: pyval
  u_default :: pyval
  u_ignore :: pyval
  u_validate :: pyval
  answers :: answers
  show_default :: pyval

text \<open>
  \<^verbatim>\<open>
    def __init__(self, name, message="", choices=None, default=None, ignore=False,
                 validate=True, show_default=False):
        self.name = name
        self._message = message
        self._choices = choices or []
        self._default = default
        self._ignore = ignore
        self._validate = validate
        self.answers = {}
        self.show_default = show_default
  \<close>
\<close>

definition Question_init ::
  "string \<Rightarrow> pyval \<Rightarrow> pyval \<Rightarrow> pyval \<Rightarrow> pyval \<Rightarrow> pyval \<Rightarrow> pyval \<Rightarrow> question" where
  "Question_init nm message choices dflt ign validate showd =
     \<lparr> name = nm,
       u_message = message,
       u_choices = (if truthy choices then choices else PList []),
       u_default = dflt,
       u_ignore = ign,
       u_validate = validate,
       answers = Map.empty,
       show_default = showd \<rparr>"

text \<open>
  \<^verbatim>\<open>
    def _solve(self, prop, *args, **kwargs):
        if callable(prop):
            return prop(self.answers, *args, **kwargs)
        if isinstance(prop, str):
            return prop.format(**self.answers)
        return prop
  \<close>
  \<open>F\<close> is the store of function bodies. No caller in the module passes keyword arguments.
\<close>

definition solve :: "funs \<Rightarrow> 'a question_scheme \<Rightarrow> pyval \<Rightarrow> pyval list \<Rightarrow> exn + pyval" where
  "solve F self prop args =
     (case prop of
        PFunc i \<Rightarrow> F i (answers self) args
      | PStr template \<Rightarrow>
          (case str_format template (answers self) of
             Inl e \<Rightarrow> Inl e | Inr s \<Rightarrow> Inr (PStr s))
      | _ \<Rightarrow> Inr prop)"

text \<open>The properties \<^verbatim>\<open>ignore\<close>, \<^verbatim>\<open>message\<close> and \<^verbatim>\<open>default\<close>;
  \<^verbatim>\<open>self.answers.get(self.name)\<close> is \<^verbatim>\<open>None\<close> for a missing key.\<close>

definition ignore :: "funs \<Rightarrow> 'a question_scheme \<Rightarrow> exn + bool" where
  "ignore F self =
     (case solve F self (u_ignore self) [] of Inl e \<Rightarrow> Inl e | Inr v \<Rightarrow> Inr (truthy v))"

definition message :: "funs \<Rightarrow> 'a question_scheme \<Rightarrow> exn + pyval" where
  "message F self = solve F self (u_message self) []"

definition dict_get :: "answers \<Rightarrow> string \<Rightarrow> pyval" where
  "dict_get d k = (case d k of None \<Rightarrow> PNone | Some v \<Rightarrow> v)"

definition default :: "funs \<Rightarrow> 'a question_scheme \<Rightarrow> exn + pyval" where
  "default F self =
     (let recorded = dict_get (answers self) (name self)
      in if truthy recorded then Inr recorded else solve F self (u_default self) [])"

text \<open>
  \<^verbatim>\<open>
    @property
    def choices_generator(self):
        for choice in self._solve(self._choices):
            yield (TaggedValue(*choice) if isinstance(choice, tuple) and len(choice) == 2
                   else choice)

    @property
    def choices(self):
        return list(self.choices_generator)
  \<close>
  \<open>py_iter\<close> is the sequence of items a \<^verbatim>\<open>for\<close> loop draws from a value: the elements of a
  list or tuple, the characters of a string, \<^verbatim>\<open>TypeError\<close> for a value that is not
  iterable. The generator runs to its end inside \<^verbatim>\<open>list\<close>, so \<open>choices\<close> returns the
  yielded items or the exception raised on the way.
\<close>

definition py_iter :: "pyval \<Rightarrow> exn + pyval list" where
  "py_iter v =
     (case v of
        PList xs \<Rightarrow> Inr xs
      | PTuple xs \<Rightarrow> Inr xs
      | PStr s \<Rightarrow> Inr (map (\<lambda>c. PStr [c]) s)
      | _ \<Rightarrow> Inl TypeError)"

fun yield_choice :: "pyval \<Rightarrow> pyval" where
  "yield_choice (PTuple [label, val]) = PTagged label val"
| "yield_choice choice = choice"

fun choices_loop :: "pyval list \<Rightarrow> pyval list" where
  "choices_loop [] = []"
| "choices_loop (choice # rest) = yield_choice choice # choices_loop rest"

definition choices_generator :: "funs \<Rightarrow> 'a question_scheme \<Rightarrow> exn + pyval list" where
  "choices_generator F self =
     (case solve F self (u_choices self) [] of
        Inl e \<Rightarrow> Inl e
      | Inr r \<Rightarrow> (case py_iter r of Inl e \<Rightarrow> Inl e | Inr items \<Rightarrow> Inr (choices_loop items)))"

definition choices :: "funs \<Rightarrow> 'a question_scheme \<Rightarrow> exn + pyval" where
  "choices F self =
     (case choices_generator F self of Inl e \<Rightarrow> Inl e | Inr items \<Rightarrow> Inr (PList items))"

text \<open>
  \<^verbatim>\<open>
    def validate(self, current):
        try:
            if self._solve(self._validate, current):
                return
        except errors.ValidationError as e:
            raise e
        except Exception:
            pass
        raise errors.ValidationError(current)
  \<close>
\<close>

definition Question_validate :: "funs \<Rightarrow> 'a question_scheme \<Rightarrow> pyval \<Rightarrow> exn + unit" where
  "Question_validate F self current =
     (case solve F self (u_validate self) [current] of
        Inr r \<Rightarrow> if truthy r then Inr () else Inl (ValidationError current)
      | Inl e \<Rightarrow>
          if isinstance_ValidationError e then Inl e
          else if isinstance_Exception e then Inl (ValidationError current)
          else Inl e)"

subsection \<open>Text, password and editor questions\<close>

text \<open>
  The keyword arguments a constructor hands on to its superclass; \<open>no_kwargs\<close> holds the
  defaults of \<^verbatim>\<open>Question.__init__\<close> and \<^verbatim>\<open>Text.__init__\<close>.
\<close>

record kwargs =
  kw_message :: pyval
  kw_choices :: pyval
  kw_default :: pyval
  kw_ignore :: pyval
  kw_validate :: pyval
  kw_show_default :: pyval

definition no_kwargs :: kwargs where
  "no_kwargs =
     \<lparr> kw_message = PStr [], kw_choices = PNone, kw_default = PNone,
       kw_ignore = PBool False, kw_validate = PBool True, kw_show_default = PBool False \<rparr>"

text \<open>
  \<^verbatim>\<open>
    class Text(Question):
        def __init__(self, name, message="", default=None, **kwargs):
            super(Text, self).__init__(
                name, message=message,
                default=str(default) if default and not callable(default) else default,
                **kwargs)
  \<close>
  \<open>Text_default\<close> is the conditional expression; \<^verbatim>\<open>str\<close> may raise.
\<close>

definition Text_default :: "pyval \<Rightarrow> exn + pyval" where
  "Text_default dflt =
     (if truthy dflt \<and> \<not> callable dflt
      then (case py_str dflt of Inl e \<Rightarrow> Inl e | Inr s \<Rightarrow> Inr (PStr s))
      else Inr dflt)"

definition Text_init :: "string \<Rightarrow> kwargs \<Rightarrow> exn + question" where
  "Text_init nm kw =
     (case Text_default (kw_default kw) of
        Inl e \<Rightarrow> Inl e
      | Inr d \<Rightarrow>
          Inr (Question_init nm (kw_message kw) (kw_choices kw) d (kw_ignore kw)
                 (kw_validate kw) (kw_show_default kw)))"

text \<open>
  \<^verbatim>\<open>
    class Password(Text):
        def __init__(self, name, echo="*", **kwargs):
            super(Password, self).__init__(name, **kwargs)
            self.echo = echo

    class Editor(Text):
        kind = "editor"
  \<close>
\<close>

record password_question = question +
  echo :: pyval

definition Password_init :: "string \<Rightarrow> pyval \<Rightarrow> kwargs \<Rightarrow> exn + password_question" where
  "Password_init nm ech kw =
     (case Text_init nm kw of
        Inl e \<Rightarrow> Inl e
      | Inr q \<Rightarrow> Inr (question.extend q (password_question.fields ech)))"

definition Editor_init :: "string \<Rightarrow> kwargs \<Rightarrow> exn + question" where
  "Editor_init nm kw = Text_init nm kw"

section \<open>Path questions\<close>

subsection \<open>The operating system\<close>

text \<open>
  What the module reads from \<^verbatim>\<open>os\<close>, \<^verbatim>\<open>os.path\<close>, \<^verbatim>\<open>sys\<close> and \<^verbatim>\<open>errno\<close>. The
  functions of \<^verbatim>\<open>os.path\<close> are taken on strings, where they return without raising.
  \<^verbatim>\<open>os.lstat\<close> returns, raises \<^verbatim>\<open>OSError\<close>, or raises \<^verbatim>\<open>ValueError\<close> (a path with an
  embedded null character). An \<^verbatim>\<open>OSError\<close> has an \<^verbatim>\<open>errno\<close>, which may be \<^verbatim>\<open>None\<close>, and
  on Windows only an attribute \<^verbatim>\<open>winerror\<close>, which may be \<^verbatim>\<open>None\<close> as well: the field
  \<open>winerror\<close> is \<open>None\<close> when the attribute is missing.
\<close>

record oserror =
  errno :: "int option"
  winerror :: "int option option"

datatype lstat_result = LstatOk | LstatOSError oserror | LstatValueError

record os =
  sys_platform_win32 :: bool
  environ_HOMEDRIVE :: "string option"
  errno_ENAMETOOLONG :: int
  errno_ERANGE :: int
  os_sep :: char
  os_splitdrive :: "string \<Rightarrow> string \<times> string"
  os_basename :: "string \<Rightarrow> string"
  os_expanduser :: "string \<Rightarrow> string"
  os_abspath :: "string \<Rightarrow> string"
  os_isdir :: "string \<Rightarrow> bool"
  os_isfile :: "string \<Rightarrow> bool"
  os_exists :: "string \<Rightarrow> bool"
  os_lstat :: "string \<Rightarrow> lstat_result"

text \<open>\<^verbatim>\<open>s.rstrip(c)\<close> and \<^verbatim>\<open>s.split(c)\<close> for a separator \<open>c\<close> of one character.\<close>

definition rstrip :: "string \<Rightarrow> char \<Rightarrow> string" where
  "rstrip s c = rev (dropWhile (\<lambda>x. x = c) (rev s))"

fun split :: "string \<Rightarrow> char \<Rightarrow> string list" where
  "split [] c = [[]]"
| "split (x # xs) c =
     (if x = c then [] # split xs c
      else (case split xs c of p # ps \<Rightarrow> (x # p) # ps | [] \<Rightarrow> [[x]]))"

subsection \<open>Pathname validity\<close>

text \<open>
  \<^verbatim>\<open>
    ERROR_INVALID_NAME = 123

    def is_pathname_valid(pathname):
        try:
            if not isinstance(pathname, str) or not pathname:
                return False
            _, pathname = os.path.splitdrive(pathname)
            root_dirname = os.environ.get("HOMEDRIVE", "C:") if sys.platform == "win32" else os.path.sep
            assert os.path.isdir(root_dirname)
            root_dirname = root_dirname.rstrip(os.path.sep) + os.path.sep
            for pathname_part in pathname.split(os.path.sep):
                try:
                    os.lstat(root_dirname + pathname_part)
                except OSError as exc:
                    if hasattr(exc, "winerror"):
                        if exc.winerror == ERROR_INVALID_NAME:
                            return False
                    elif exc.errno in {errno.ENAMETOOLONG, errno.ERANGE}:
                        return False
        except (ValueError, TypeError):
            return False
        else:
            return True
  \<close>
  \<open>invalid_name_fault\<close> is the test of the inner handler. \<open>lstat_loop\<close> is the \<^verbatim>\<open>for\<close> loop:
  \<open>Inr (Some b)\<close> when an iteration returns \<open>b\<close>, \<open>Inr None\<close> when the loop runs to its
  end, \<open>Inl e\<close> when an exception leaves the loop. \<open>is_pathname_valid_try\<close> is the body of
  the outer \<^verbatim>\<open>try\<close>, \<open>is_pathname_valid\<close> adds its \<^verbatim>\<open>except\<close> and \<^verbatim>\<open>else\<close> clauses.
\<close>

definition ERROR_INVALID_NAME :: int where
  "ERROR_INVALID_NAME = 123"

definition invalid_name_fault :: "os \<Rightarrow> oserror \<Rightarrow> bool" where
  "invalid_name_fault sys exc =
     (case winerror exc of
        Some w \<Rightarrow> w = Some ERROR_INVALID_NAME
      | None \<Rightarrow> errno exc \<in> {Some (errno_ENAMETOOLONG sys), Some (errno_ERANGE sys)})"

fun lstat_loop :: "os \<Rightarrow> string \<Rightarrow> string list \<Rightarrow> exn + bool option" where
  "lstat_loop sys root_dirname [] = Inr None"
| "lstat_loop sys root_dirname (pathname_part # rest) =
     (case os_lstat sys (root_dirname @ pathname_part) of
        LstatOk \<Rightarrow> lstat_loop sys root_dirname rest
      | LstatValueError \<Rightarrow> Inl ValueError
      | LstatOSError exc \<Rightarrow>
          if invalid_name_fault sys exc then Inr (Some False)
          else lstat_loop sys root_dirname rest)"

definition root_dirname_of :: "os \<Rightarrow> string" where
  "root_dirname_of sys =
     (if sys_platform_win32 sys
      then (case environ_HOMEDRIVE sys of None \<Rightarrow> ''C:'' | Some d \<Rightarrow> d)
      else [os_sep sys])"

definition is_pathname_valid_try :: "os \<Rightarrow> pyval \<Rightarrow> exn + bool option" where
  "is_pathname_valid_try sys pathname =
     (case pathname of
        PStr s \<Rightarrow>
          if s = [] then Inr (Some False)
          else
            let pathname' = snd (os_splitdrive sys s);
                root_dirname = root_dirname_of sys
            in if \<not> os_isdir sys root_dirname then Inl AssertionError
               else lstat_loop sys (rstrip root_dirname (os_sep sys) @ [os_sep sys])
                      (split pathname' (os_sep sys))
      | _ \<Rightarrow> Inr (Some False))"

definition is_pathname_valid :: "os \<Rightarrow> pyval \<Rightarrow> exn + bool" where
  "is_pathname_valid sys pathname =
     (case is_pathname_valid_try sys pathname of
        Inl ValueError \<Rightarrow> Inr False
      | Inl TypeError \<Rightarrow> Inr False
      | Inl e \<Rightarrow> Inl e
      | Inr (Some b) \<Rightarrow> Inr b
      | Inr None \<Rightarrow> Inr True)"

subsection \<open>The class Path\<close>

record path_question = question +
  u_path_type :: pyval
  u_exists :: pyval
  u_normalize_to_absolute_path :: pyval

text \<open>
  \<^verbatim>\<open>
    def normalize_value(self, value):
        value = os.path.expanduser(value)
        if self._normalize_to_absolute_path:
            value = os.path.abspath(value)
        return value
  \<close>
  \<^verbatim>\<open>os.path.expanduser\<close> raises \<^verbatim>\<open>TypeError\<close> for a value that is not a path.
\<close>

definition normalize_value :: "os \<Rightarrow> 'a path_question_scheme \<Rightarrow> pyval \<Rightarrow> exn + string" where
  "normalize_value sys self val =
     (case val of
        PStr s \<Rightarrow>
          let v = os_expanduser sys s
          in Inr (if truthy (u_normalize_to_absolute_path self) then os_abspath sys v else v)
      | _ \<Rightarrow> Inl TypeError)"

text \<open>
  \<^verbatim>\<open>
    def validate(self, current):
        super(Path, self).validate(current)
        if current is None:
            raise errors.ValidationError(current)
        current = self.normalize_value(current)
        if not is_pathname_valid(current):
            raise errors.ValidationError(current)
        if self._path_type == "file":
            if self._exists is None and os.path.basename(current) == "":
                raise errors.ValidationError(current)
            elif self._exists and not os.path.isfile(current):
                raise errors.ValidationError(current)
            elif self._exists is not None and not self._exists and os.path.isfile(current):
                raise errors.ValidationError(current)
        elif self._path_type == "directory":
            if self._exists is None and os.path.basename(current) != "":
                raise errors.ValidationError(current)
            elif self._exists and not os.path.isdir(current):
                raise errors.ValidationError(current)
            elif self._exists is not None and not self._exists and os.path.isdir(current):
                raise errors.ValidationError(current)
        elif self._exists and not os.path.exists(current):
            raise errors.ValidationError(current)
        elif self._exists is not None and not self._exists and os.path.exists(current):
            raise errors.ValidationError(current)
  \<close>
  \<open>Path_check\<close> is the chain of tests on the normalized path, which the method has
  assigned to \<^verbatim>\<open>current\<close> by then.
\<close>

definition Path_check :: "os \<Rightarrow> 'a path_question_scheme \<Rightarrow> string \<Rightarrow> exn + unit" where
  "Path_check sys self current =
     (if py_eq (u_path_type self) (PStr ''file'') then
        (if u_exists self = PNone \<and> os_basename sys current = []
           then Inl (ValidationError (PStr current))
         else if truthy (u_exists self) \<and> \<not> os_isfile sys current
           then Inl (ValidationError (PStr current))
         else if u_exists self \<noteq> PNone \<and> \<not> truthy (u_exists self) \<and> os_isfile sys current
           then Inl (ValidationError (PStr current))
         else Inr ())
      else if py_eq (u_path_type self) (PStr ''directory'') then
        (if u_exists self = PNone \<and> os_basename sys current \<noteq> []
           then Inl (ValidationError (PStr current))
         else if truthy (u_exists self) \<and> \<not> os_isdir sys current
           then Inl (ValidationError (PStr current))
         else if u_exists self \<noteq> PNone \<and> \<not> truthy (u_exists self) \<and> os_isdir sys current
           then Inl (ValidationError (PStr current))
         else Inr ())
      else if truthy (u_exists self) \<and> \<not> os_exists sys current
        then Inl (ValidationError (PStr current))
      else if u_exists self \<noteq> PNone \<and> \<not> truthy (u_exists self) \<and> os_exists sys current
        then Inl (ValidationError (PStr current))
      else Inr ())"

definition Path_validate :: "funs \<Rightarrow> os \<Rightarrow> 'a path_question_scheme \<Rightarrow> pyval \<Rightarrow> exn + unit" where
  "Path_validate F sys self current =
     (case Question_validate F self current of
        Inl e \<Rightarrow> Inl e
      | Inr u \<Rightarrow>
          if current = PNone then Inl (ValidationError current)
          else
            (case normalize_value sys self current of
               Inl e \<Rightarrow> Inl e
             | Inr current' \<Rightarrow>
                 (case is_pathname_valid sys (PStr current') of
                    Inl e \<Rightarrow> Inl e
                  | Inr valid \<Rightarrow>
                      if \<not> valid then Inl (ValidationError (PStr current'))
                      else Path_check sys self current')))"

text \<open>
  \<^verbatim>\<open>
    def __init__(self, name, default=None, path_type="any", exists=None,
                 normalize_to_absolute_path=False, **kwargs):
        super(Path, self).__init__(name, default=default, **kwargs)
        self._path_type = path_type
        self._exists = exists
        self._normalize_to_absolute_path = normalize_to_absolute_path
        if default is not None:
            try:
                self.validate(default)
            except errors.ValidationError:
                raise ValueError("Default value '{}' is not valid based on "
                                 "your Path's criteria".format(default))
  \<close>
  \<open>Path_new\<close> is the object after the assignments, \<open>d\<close> being the default that
  \<^verbatim>\<open>Text.__init__\<close> has stored. The message of the \<^verbatim>\<open>ValueError\<close> is not kept.
\<close>

definition Path_new ::
  "string \<Rightarrow> pyval \<Rightarrow> pyval \<Rightarrow> pyval \<Rightarrow> pyval \<Rightarrow> kwargs \<Rightarrow> path_question" where
  "Path_new nm d path_type ex to_abs kw =
     question.extend
       (Question_init nm (kw_message kw) (kw_choices kw) d (kw_ignore kw)
          (kw_validate kw) (kw_show_default kw))
       (path_question.fields path_type ex to_abs)"

definition Path_init ::
  "funs \<Rightarrow> os \<Rightarrow> string \<Rightarrow> pyval \<Rightarrow> pyval \<Rightarrow> pyval \<Rightarrow> pyval \<Rightarrow> kwargs \<Rightarrow> exn + path_question" where
  "Path_init F sys nm dflt path_type ex to_abs kw =
     (case Text_init nm (kw\<lparr>kw_default := dflt\<rparr>) of
        Inl e \<Rightarrow> Inl e
      | Inr q \<Rightarrow>
          let self = question.extend q (path_question.fields path_type ex to_abs)
          in if dflt \<noteq> PNone then
               (case Path_validate F sys self dflt of
                  Inl e \<Rightarrow> if isinstance_ValidationError e then Inl ValueError else Inl e
                | Inr u \<Rightarrow> Inr self)
             else Inr self)"

section \<open>A POSIX system\<close>

text \<open>
  An instance of the record \<open>os\<close> for a Linux host, used to run the model on concrete
  paths. The string functions follow CPython's \<^verbatim>\<open>posixpath\<close>. The file system is a list of
  directories and a list of regular files, given by their absolute normalized paths,
  without symbolic links; a path is resolved lexically. \<^verbatim>\<open>lstat\<close> rejects a path with a
  null character before the system call, reports \<^verbatim>\<open>ENAMETOOLONG\<close> (36) for a component
  longer than 255 characters or a path of 4096 characters or more, and \<^verbatim>\<open>ENOENT\<close> (2) for
  a path that does not exist.
\<close>

record posix_state =
  environ_HOME :: "string option"
  pw_dir :: "string option"
  getpwnam :: "string \<Rightarrow> string option"
  getcwd :: string
  directories :: "string list"
  regular_files :: "string list"

definition posix_basename :: "string \<Rightarrow> string" where
  "posix_basename p = rev (takeWhile (\<lambda>c. c \<noteq> CHR ''/'') (rev p))"

definition posix_expanduser :: "posix_state \<Rightarrow> string \<Rightarrow> string" where
  "posix_expanduser st path =
     (case path of
        [] \<Rightarrow> path
      | c # rest \<Rightarrow>
          if c \<noteq> CHR ''~'' then path
          else
            let user = takeWhile (\<lambda>x. x \<noteq> CHR ''/'') rest;
                tail = dropWhile (\<lambda>x. x \<noteq> CHR ''/'') rest;
                userhome = (if user = []
                            then (case environ_HOME st of None \<Rightarrow> pw_dir st | Some h \<Rightarrow> Some h)
                            else getpwnam st user)
            in (case userhome of
                  None \<Rightarrow> path
                | Some h \<Rightarrow> (let r = rstrip h (CHR ''/'') @ tail in if r = [] then ''/'' else r)))"

fun normpath_comps :: "bool \<Rightarrow> string list \<Rightarrow> string list \<Rightarrow> string list" where
  "normpath_comps rooted new_comps [] = rev new_comps"
| "normpath_comps rooted new_comps (part # parts) =
     (if part = [] \<or> part = ''.'' then normpath_comps rooted new_comps parts
      else if part \<noteq> ''..'' \<or> (\<not> rooted \<and> new_comps = [])
                \<or> (new_comps \<noteq> [] \<and> hd new_comps = ''..'')
        then normpath_comps rooted (part # new_comps) parts
      else normpath_comps rooted (tl new_comps) parts)"

definition posix_normpath :: "string \<Rightarrow> string" where
  "posix_normpath path =
     (if path = [] then ''.''
      else
        let initial_slashes =
              (if take 1 path \<noteq> ''/'' then 0
               else if take 2 path = ''//'' \<and> take 3 path \<noteq> ''///'' then 2 else 1 :: nat);
            comps = normpath_comps (initial_slashes \<noteq> 0) [] (split path (CHR ''/''));
            p = replicate initial_slashes (CHR ''/'') @ join ''/'' comps
        in if p = [] then ''.'' else p)"

definition posix_join :: "string \<Rightarrow> string \<Rightarrow> string" where
  "posix_join a b =
     (if take 1 b = ''/'' then b
      else if a = [] \<or> last a = CHR ''/'' then a @ b
      else a @ ''/'' @ b)"

definition posix_abspath :: "posix_state \<Rightarrow> string \<Rightarrow> string" where
  "posix_abspath st path =
     posix_normpath (if take 1 path = ''/'' then path else posix_join (getcwd st) path)"

definition posix_isdir :: "posix_state \<Rightarrow> string \<Rightarrow> bool" where
  "posix_isdir st path = (path \<noteq> [] \<and> posix_abspath st path \<in> set (directories st))"

definition posix_isfile :: "posix_state \<Rightarrow> string \<Rightarrow> bool" where
  "posix_isfile st path =
     (path \<noteq> [] \<and> last path \<noteq> CHR ''/'' \<and> posix_abspath st path \<in> set (regular_files st))"

definition posix_lstat :: "posix_state \<Rightarrow> string \<Rightarrow> lstat_result" where
  "posix_lstat st path =
     (if CHR 0x00 \<in> set path then LstatValueError
      else if 4096 \<le> length path \<or> list_ex (\<lambda>part. 255 < length part) (split path (CHR ''/''))
        then LstatOSError \<lparr> errno = Some 36, winerror = None \<rparr>
      else if posix_isdir st path \<or> posix_isfile st path then LstatOk
      else LstatOSError \<lparr> errno = Some 2, winerror = None \<rparr>)"

definition posix_os :: "posix_state \<Rightarrow> os" where
  "posix_os st =
     \<lparr> sys_platform_win32 = False,
       environ_HOMEDRIVE = None,
       errno_ENAMETOOLONG = 36,
       errno_ERANGE = 34,
       os_sep = CHR ''/'',
       os_splitdrive = (\<lambda>p. ([], p)),
       os_basename = posix_basename,
       os_expanduser = posix_expanduser st,
       os_abspath = posix_abspath st,
       os_isdir = posix_isdir st,
       os_isfile = posix_isfile st,
       os_exists = (\<lambda>p. posix_isdir st p \<or> posix_isfile st p),
       os_lstat = posix_lstat st \<rparr>"

text \<open>A host with the home directory \<^verbatim>\<open>/root\<close>, the working directory \<^verbatim>\<open>/srv\<close>, the
  directory \<^verbatim>\<open>/srv/a\<close> and the regular file \<^verbatim>\<open>/srv/a/b\<close>.\<close>

definition example_state :: posix_state where
  "example_state =
     \<lparr> environ_HOME = Some ''/root'',
       pw_dir = Some ''/root'',
       getpwnam = (\<lambda>u. if u = ''root'' then Some ''/root'' else None),
       getcwd = ''/srv'',
       directories = [''/'', ''/root'', ''/srv'', ''/srv/a''],
       regular_files = [''/srv/a/b''] \<rparr>"

definition example_os :: os where
  "example_os = posix_os example_state"

text \<open>
  A store of function objects for the examples:
  \<^verbatim>\<open>
    f0 = lambda answers, current: len(current) <= 3
    def f1(answers, current): raise errors.ValidationError("reason")
    f2 = lambda answers, current: 1 / 0
    f3 = lambda answers: [("Yes", 1), ("No", 0)] if answers.get("kind") == "yn" else [2]
  \<close>
\<close>

definition example_funs :: funs where
  "example_funs i ans args =
     (if i = 0 then
        (case args of
           [PStr s] \<Rightarrow> Inr (PBool (length s \<le> 3))
         | [PList xs] \<Rightarrow> Inr (PBool (length xs \<le> 3))
         | [PTuple xs] \<Rightarrow> Inr (PBool (length xs \<le> 3))
         | _ \<Rightarrow> Inl TypeError)
      else if i = 1 then Inl (ValidationError (PStr ''reason''))
      else if i = 2 then Inl (OtherException ''ZeroDivisionError'')
      else if i = 3 then
        (if py_eq (dict_get ans ''kind'') (PStr ''yn'')
         then Inr (PList [PTuple [PStr ''Yes'', PInt 1], PTuple [PStr ''No'', PInt 0]])
         else Inr (PList [PInt 2]))
      else Inr PNone)"

section \<open>Templates as the specification describes them\<close>

text \<open>
  The specification speaks of a template as literal text with named placeholders. A
  template in this sense is a list of chunks; \<open>template_of\<close> writes it as a format
  string, doubling the braces of literal text, and \<open>substitute\<close> replaces each
  placeholder by the string form of the value recorded under its name.
  \<open>placeholder_name\<close> says which names a placeholder can carry: not empty, not a number,
  and free of the characters that end a field name or start a lookup inside it.
\<close>

datatype chunk = Lit string | Placeholder string

definition placeholder_name :: "string \<Rightarrow> bool" where
  "placeholder_name n =
     (n \<noteq> [] \<and> \<not> list_all is_digit n \<and> list_all (\<lambda>c. c \<notin> set ''{}.[!:'') n)"

fun valid_chunk :: "chunk \<Rightarrow> bool" where
  "valid_chunk (Lit s) = True"
| "valid_chunk (Placeholder n) = placeholder_name n"

fun escape_braces :: "string \<Rightarrow> string" where
  "escape_braces [] = []"
| "escape_braces (c # cs) =
     (if c = CHR ''{'' \<or> c = CHR ''}'' then c # c # escape_braces cs else c # escape_braces cs)"

fun template_of :: "chunk list \<Rightarrow> string" where
  "template_of [] = []"
| "template_of (Lit s # cs) = escape_braces s @ template_of cs"
| "template_of (Placeholder n # cs) = ''{'' @ n @ ''}'' @ template_of cs"

fun placeholders :: "chunk list \<Rightarrow> string list" where
  "placeholders [] = []"
| "placeholders (Lit s # cs) = placeholders cs"
| "placeholders (Placeholder n # cs) = n # placeholders cs"

definition stringified :: "answers \<Rightarrow> string \<Rightarrow> string" where
  "stringified ctx n =
     (case ctx n of
        Some v \<Rightarrow> (case py_str v of Inr s \<Rightarrow> s | Inl e \<Rightarrow> [])
      | None \<Rightarrow> [])"

fun substitute :: "answers \<Rightarrow> chunk list \<Rightarrow> string" where
  "substitute ctx [] = []"
| "substitute ctx (Lit s # cs) = s @ substitute ctx cs"
| "substitute ctx (Placeholder n # cs) = stringified ctx n @ substitute ctx cs"

definition has_str :: "pyval \<Rightarrow> bool" where
  "has_str v = (case py_str v of Inr s \<Rightarrow> True | Inl e \<Rightarrow> False)"

text \<open>A name is \<open>stringifiable\<close> in a context when the value recorded under it, if any, has a
  string form; \<open>first_absent\<close> is the first name of a list that the context lacks.\<close>

definition stringifiable :: "answers \<Rightarrow> string \<Rightarrow> bool" where
  "stringifiable ctx n = (case ctx n of Some v \<Rightarrow> has_str v | None \<Rightarrow> True)"

definition first_absent :: "answers \<Rightarrow> string list \<Rightarrow> string option" where
  "first_absent ctx ns = List.find (\<lambda>n. ctx n = None) ns"

section \<open>Further notions of the specification\<close>

text \<open>The materialization of a choice item: a tuple of two elements becomes a tagged pair of
  its label and value, any other item stays as it is.\<close>

definition tagged_pair_of :: "pyval \<Rightarrow> pyval" where
  "tagged_pair_of item =
     (case item of
        PTuple xs \<Rightarrow> if length xs = 2 then PTagged (xs ! 0) (xs ! 1) else item
      | _ \<Rightarrow> item)"

text \<open>The default a constructor has stored, when it returns an object.\<close>

definition stored_default :: "exn + 'a question_scheme \<Rightarrow> exn + pyval" where
  "stored_default r = (case r of Inl e \<Rightarrow> Inl e | Inr q \<Rightarrow> Inr (u_default q))"

text \<open>
  The segments of a pathname after its drive prefix, the metadata probe of one segment
  under the root directory, and the two faults that make a name invalid: the Windows code
  123 on an error that carries a Windows code, and otherwise the error numbers for a name
  that is too long.
\<close>

definition segments :: "os \<Rightarrow> string \<Rightarrow> string list" where
  "segments sys s = split (snd (os_splitdrive sys s)) (os_sep sys)"

definition probe :: "os \<Rightarrow> string \<Rightarrow> lstat_result" where
  "probe sys part =
     os_lstat sys (rstrip (root_dirname_of sys) (os_sep sys) @ [os_sep sys] @ part)"

definition name_fault_reported :: "os \<Rightarrow> string \<Rightarrow> bool" where
  "name_fault_reported sys part =
     (case probe sys part of
        LstatOSError exc \<Rightarrow>
          winerror exc = Some (Some 123)
          \<or> (winerror exc = None
              \<and> (errno exc = Some (errno_ENAMETOOLONG sys) \<or> errno exc = Some (errno_ERANGE sys)))
      | _ \<Rightarrow> False)"

text \<open>The existence policy of the path type \<^verbatim>\<open>any\<close>: no constraint when \<open>exists\<close> is
  \<^verbatim>\<open>None\<close>, the path must exist when it is true, must not exist when it is false.\<close>

definition any_policy_accepts :: "os \<Rightarrow> pyval \<Rightarrow> string \<Rightarrow> bool" where
  "any_policy_accepts sys ex p =
     (if ex = PNone then True else if truthy ex then os_exists sys p else \<not> os_exists sys p)"

section \<open>Example questions\<close>

text \<open>
  \<^verbatim>\<open>Question("q", message="Name?", choices=chs, default=dflt, validate=validate)\<close> and
  \<^verbatim>\<open>Path("p", path_type=path_type, exists=ex, normalize_to_absolute_path=to_abs)\<close>.
\<close>

definition example_question :: "pyval \<Rightarrow> pyval \<Rightarrow> pyval \<Rightarrow> question" where
  "example_question chs dflt validate =
     Question_init ''q'' (PStr ''Name?'') chs dflt (PBool False) validate (PBool False)"

definition example_path :: "pyval \<Rightarrow> pyval \<Rightarrow> pyval \<Rightarrow> path_question" where
  "example_path path_type ex to_abs = Path_new ''p'' PNone path_type ex to_abs no_kwargs"

section \<open>Auxiliary facts\<close>

lemma Question_init_fields [simp]:
  "name (Question_init n m ch d ig va sd) = n"
  "u_message (Question_init n m ch d ig va sd) = m"
  "u_choices (Question_init n m ch d ig va sd) = (if truthy ch then ch else PList [])"
  "u_default (Question_init n m ch d ig va sd) = d"
  "u_ignore (Question_init n m ch d ig va sd) = ig"
  "u_validate (Question_init n m ch d ig va sd) = va"
  "answers (Question_init n m ch d ig va sd) = Map.empty"
  "show_default (Question_init n m ch d ig va sd) = sd"
  by (simp_all add: Question_init_def)

lemma Path_new_fields [simp]:
  "name (Path_new n d pt ex na kw) = n"
  "u_validate (Path_new n d pt ex na kw) = kw_validate kw"
  "u_default (Path_new n d pt ex na kw) = d"
  "answers (Path_new n d pt ex na kw) = Map.empty"
  "u_path_type (Path_new n d pt ex na kw) = pt"
  "u_exists (Path_new n d pt ex na kw) = ex"
  "u_normalize_to_absolute_path (Path_new n d pt ex na kw) = na"
  by (simp_all add: Path_new_def Question_init_def question.defs path_question.defs)

lemma find_Some_holds: "find P xs = Some x \<Longrightarrow> P x \<and> x \<in> set xs"
  by (induction xs) (auto split: if_splits)

subsection \<open>Equality\<close>

lemma py_eq_sym: "py_eq a b = py_eq b a" and py_eq_list_sym: "py_eq_list xs ys = py_eq_list ys xs"
  by (induction a b and xs ys rule: py_eq_py_eq_list.induct) auto

lemma py_eq_untagged_left:
  assumes "\<not> is_TaggedValue v"
  shows "py_eq (PTagged l v) x = py_eq v x"
proof (cases x)
  case (PTagged l' v')
  have "py_eq (PTagged l v) x = py_eq v v'" using PTagged by simp
  also have "\<dots> = py_eq v' v" by (rule py_eq_sym)
  also have "\<dots> = py_eq v x" using assms PTagged by (cases v) simp_all
  finally show ?thesis .
qed simp_all

lemma py_eq_tagged_left: "py_eq (PTagged l v) x = py_eq v x"
proof (induction v arbitrary: l x)
  case (PTagged a w)
  show ?case
  proof (cases x)
    case (PTagged l' v')
    have "py_eq (PTagged l (PTagged a w)) x = py_eq (PTagged a w) v'" using PTagged by simp
    also have "\<dots> = py_eq w v'" using PTagged.IH(2) by simp
    also have "\<dots> = py_eq (PTagged a w) x" using \<open>x = PTagged l' v'\<close> by simp
    finally show ?thesis .
  qed simp_all
qed (simp_all add: py_eq_untagged_left)

lemma py_eq_tagged_right: "py_eq x (PTagged l v) = py_eq x v"
proof -
  have "py_eq x (PTagged l v) = py_eq (PTagged l v) x" by (rule py_eq_sym)
  also have "\<dots> = py_eq v x" by (rule py_eq_tagged_left)
  also have "\<dots> = py_eq x v" by (rule py_eq_sym)
  finally show ?thesis .
qed

lemma py_ne_tagged_left: "py_ne (PTagged l v) x = (\<not> py_eq (PTagged l v) x)"
  by simp

lemma py_ne_tagged_right: "py_ne x (PTagged l v) = (\<not> py_eq x (PTagged l v))"
  by (cases x) simp_all

subsection \<open>Format strings\<close>

lemma format_literal:
  "str_format_from kw None (escape_braces s @ rest) =
     (case str_format_from kw None rest of Inl e \<Rightarrow> Inl e | Inr r \<Rightarrow> Inr (s @ r))"
  by (induction s) (auto split: sum.splits)

lemma format_field_name:
  "list_all (\<lambda>c. c \<notin> set ''{}.[!:'') n \<Longrightarrow>
   str_format_from kw (Some acc) (n @ CHR ''}'' # rest) =
     (case format_field kw (rev acc @ n) of
        Inl e \<Rightarrow> Inl e
      | Inr s \<Rightarrow> (case str_format_from kw None rest of Inl e \<Rightarrow> Inl e | Inr r \<Rightarrow> Inr (s @ r)))"
  by (induction n arbitrary: acc) auto

lemma format_placeholder:
  assumes "placeholder_name n"
  shows "str_format_from kw None (''{'' @ n @ ''}'' @ rest) =
     (case kw n of
        None \<Rightarrow> Inl (KeyError n)
      | Some v \<Rightarrow>
          (case py_str v of
             Inl e \<Rightarrow> Inl e
           | Inr s \<Rightarrow> (case str_format_from kw None rest of Inl e \<Rightarrow> Inl e | Inr r \<Rightarrow> Inr (s @ r))))"
proof -
  from assms obtain c cs where n: "n = c # cs" and c: "c \<noteq> CHR ''{''"
    and ok: "list_all (\<lambda>c. c \<notin> set ''{}.[!:'') n" and nd: "\<not> list_all is_digit n"
    by (cases n) (auto simp: placeholder_name_def)
  have "str_format_from kw None (''{'' @ n @ ''}'' @ rest)
          = str_format_from kw (Some []) (n @ CHR ''}'' # rest)"
    using n c by simp
  also have "\<dots> = (case format_field kw n of
        Inl e \<Rightarrow> Inl e
      | Inr s \<Rightarrow> (case str_format_from kw None rest of Inl e \<Rightarrow> Inl e | Inr r \<Rightarrow> Inr (s @ r)))"
    using format_field_name[OF ok, of kw "[]" rest] by simp
  also have "format_field kw n = (case kw n of None \<Rightarrow> Inl (KeyError n) | Some v \<Rightarrow> py_str v)"
  proof -
    have "n \<noteq> []" using n by simp
    then show ?thesis using nd by (simp add: format_field_def)
  qed
  finally show ?thesis by (simp split: option.splits)
qed

lemma str_format_template:
  "list_all valid_chunk cs \<Longrightarrow> list_all (stringifiable ctx) (placeholders cs) \<Longrightarrow>
   str_format_from ctx None (template_of cs) =
     (case first_absent ctx (placeholders cs) of
        None \<Rightarrow> Inr (substitute ctx cs)
      | Some n \<Rightarrow> Inl (KeyError n))"
proof (induction cs)
  case Nil
  show ?case by (simp add: first_absent_def)
next
  case (Cons ch cs)
  show ?case
  proof (cases ch)
    case (Lit s)
    then have "str_format_from ctx None (template_of cs) =
       (case first_absent ctx (placeholders cs) of
          None \<Rightarrow> Inr (substitute ctx cs)
        | Some n \<Rightarrow> Inl (KeyError n))"
      using Cons by simp
    then show ?thesis using Lit
      by (simp add: format_literal first_absent_def split: option.splits)
  next
    case (Placeholder n)
    then have pn: "placeholder_name n" and sn: "stringifiable ctx n"
      and IH: "str_format_from ctx None (template_of cs) =
       (case first_absent ctx (placeholders cs) of
          None \<Rightarrow> Inr (substitute ctx cs)
        | Some n \<Rightarrow> Inl (KeyError n))"
      using Cons by simp_all
    show ?thesis
    proof (cases "ctx n")
      case None
      then show ?thesis using Placeholder format_placeholder[OF pn, of ctx "template_of cs"]
        by (simp add: first_absent_def)
    next
      case (Some v)
      then obtain s where s: "py_str v = Inr s"
        using sn by (auto simp: stringifiable_def has_str_def split: sum.splits)
      show ?thesis
        using Placeholder Some s IH format_placeholder[OF pn, of ctx "template_of cs"]
        by (simp add: first_absent_def stringified_def split: option.splits)
    qed
  qed
qed

lemma first_absent_None: "first_absent ctx ns = None \<longleftrightarrow> set ns \<subseteq> dom ctx"
  by (auto simp: first_absent_def find_None_iff)

lemma first_absent_Some: "first_absent ctx ns = Some n \<Longrightarrow> n \<in> set ns \<and> ctx n = None"
  using find_Some_holds[of "\<lambda>n. ctx n = None" ns n] by (simp add: first_absent_def)

subsection \<open>Choices\<close>

lemma yield_choice_eq: "yield_choice item = tagged_pair_of item"
  by (induction item rule: yield_choice.induct) (simp_all add: tagged_pair_of_def)

lemma choices_loop_map: "choices_loop items = map tagged_pair_of items"
  by (induction items) (simp_all add: yield_choice_eq)

subsection \<open>Pathname validity\<close>

lemma lstat_loop_result:
  "lstat_loop sys root parts =
     (case find (\<lambda>part. case os_lstat sys (root @ part) of
                            LstatOk \<Rightarrow> False
                          | LstatOSError exc \<Rightarrow> invalid_name_fault sys exc
                          | LstatValueError \<Rightarrow> True) parts of
        None \<Rightarrow> Inr None
      | Some part \<Rightarrow> (if os_lstat sys (root @ part) = LstatValueError then Inl ValueError
                      else Inr (Some False)))"
  by (induction parts) (auto split: lstat_result.splits)

lemma invalid_name_fault_iff:
  "invalid_name_fault sys exc \<longleftrightarrow>
     winerror exc = Some (Some 123)
     \<or> (winerror exc = None
         \<and> (errno exc = Some (errno_ENAMETOOLONG sys) \<or> errno exc = Some (errno_ERANGE sys)))"
  by (auto simp: invalid_name_fault_def ERROR_INVALID_NAME_def split: option.splits)

lemma is_pathname_valid_str:
  assumes "os_isdir sys (root_dirname_of sys)" and "s \<noteq> []"
  shows "is_pathname_valid sys (PStr s) =
           Inr (\<not> list_ex (\<lambda>part. name_fault_reported sys part \<or> probe sys part = LstatValueError)
                    (segments sys s))"
proof -
  let ?root = "rstrip (root_dirname_of sys) (os_sep sys) @ [os_sep sys]"
  let ?P = "\<lambda>part. case os_lstat sys (?root @ part) of
                            LstatOk \<Rightarrow> False
                          | LstatOSError exc \<Rightarrow> invalid_name_fault sys exc
                          | LstatValueError \<Rightarrow> True"
  have P: "?P = (\<lambda>part. name_fault_reported sys part \<or> probe sys part = LstatValueError)"
    by (auto simp: fun_eq_iff name_fault_reported_def probe_def
          invalid_name_fault_iff split: lstat_result.splits)
  have t: "is_pathname_valid_try sys (PStr s) = lstat_loop sys ?root (segments sys s)"
    using assms by (simp add: is_pathname_valid_try_def segments_def Let_def)
  show ?thesis
  proof (cases "find ?P (segments sys s)")
    case None
    then have "\<not> list_ex ?P (segments sys s)"
      by (simp add: find_None_iff list_ex_iff)
    moreover have "is_pathname_valid sys (PStr s) = Inr True"
      using None t by (simp add: is_pathname_valid_def lstat_loop_result)
    ultimately show ?thesis using P by simp
  next
    case (Some part)
    then have "list_ex ?P (segments sys s)"
      using find_Some_holds[of ?P "segments sys s" part] by (auto simp: list_ex_iff)
    moreover have "is_pathname_valid sys (PStr s) = Inr False"
      using Some t by (simp add: is_pathname_valid_def lstat_loop_result)
    ultimately show ?thesis using P by simp
  qed
qed

lemma is_pathname_valid_not_str:
  "\<not> isinstance_str v \<or> \<not> truthy v \<Longrightarrow> is_pathname_valid sys v = Inr False"
  by (cases v) (auto simp: is_pathname_valid_def is_pathname_valid_try_def)

subsection \<open>Path questions\<close>

lemma solve_depends:
  "answers q = answers q' \<Longrightarrow> solve F q spec args = solve F q' spec args"
  by (cases spec) (simp_all add: solve_def)

lemma Question_validate_depends:
  "answers q = answers q' \<Longrightarrow> u_validate q = u_validate q' \<Longrightarrow>
   Question_validate F q c = Question_validate F q' c"
  using solve_depends[of q q' F "u_validate q'" "[c]"] by (simp add: Question_validate_def)

lemma Path_validate_depends:
  assumes "answers q = answers q'" and "u_validate q = u_validate q'"
    and "u_exists q = u_exists q'"
    and "u_normalize_to_absolute_path q = u_normalize_to_absolute_path q'"
    and "py_eq (u_path_type q) (PStr ''file'') = py_eq (u_path_type q') (PStr ''file'')"
    and "py_eq (u_path_type q) (PStr ''directory'') = py_eq (u_path_type q') (PStr ''directory'')"
  shows "Path_validate F sys q c = Path_validate F sys q' c"
proof -
  have n: "normalize_value sys q c = normalize_value sys q' c"
    using assms(4) by (cases c) (simp_all add: normalize_value_def)
  have k: "Path_check sys q p = Path_check sys q' p" for p
    using assms(3,5,6) by (simp add: Path_check_def)
  show ?thesis
    using Question_validate_depends[OF assms(1,2), of F c] n k
    by (simp add: Path_validate_def cong: sum.case_cong if_cong)
qed

lemma Path_validate_ignores_default:
  "Path_validate F sys (Path_new n d0 pt ex na kw) c = Path_validate F sys (Path_new n d1 pt ex na kw) c"
  by (rule Path_validate_depends) simp_all

lemma Path_validate_needs_str:
  "Path_validate F sys q c = Inr () \<Longrightarrow> \<exists>s. c = PStr s"
  by (cases c) (auto simp: Path_validate_def normalize_value_def split: sum.splits if_splits)

lemma Path_validate_steps:
  assumes "Question_validate F q c = Inr ()" and "c \<noteq> PNone"
    and "normalize_value sys q c = Inr p" and "is_pathname_valid sys (PStr p) = Inr True"
  shows "Path_validate F sys q c = Path_check sys q p"
  using assms by (simp add: Path_validate_def)

lemma Path_init_eq:
  "Path_init F sys n d pt ex na kw =
     (case Text_default d of
        Inl e \<Rightarrow> Inl e
      | Inr d' \<Rightarrow>
          if d \<noteq> PNone then
            (case Path_validate F sys (Path_new n d' pt ex na kw) d of
               Inl e \<Rightarrow> if isinstance_ValidationError e then Inl ValueError else Inl e
             | Inr u \<Rightarrow> Inr (Path_new n d' pt ex na kw))
          else Inr (Path_new n d' pt ex na kw))"
  by (simp add: Path_init_def Text_init_def Path_new_def Let_def split: sum.splits)

lemma example_path_validate:
  "Question_validate F (example_path pt ex na) c = Inr ()"
  by (simp add: example_path_def Question_validate_def solve_def no_kwargs_def)

lemmas posix_simps = example_os_def posix_os_def example_state_def posix_lstat_def posix_isdir_def
  posix_isfile_def posix_abspath_def posix_normpath_def posix_join_def posix_basename_def
  posix_expanduser_def rstrip_def root_dirname_of_def Let_def

section \<open>The claims\<close>

subsection \<open>C1: the validation pipeline\<close>

text \<open>
  Claim C1. \<^verbatim>\<open>Question.validate(candidate)\<close> returns normally when resolving the validate
  spec yields a truthy result; a \<^verbatim>\<open>ValidationError\<close> raised by the resolution is
  propagated unchanged; any other error, or a falsy result, becomes
  \<^verbatim>\<open>ValidationError(candidate)\<close>. The resolution calls a callable spec with the context and
  the candidate, and returns a spec that is neither callable nor a string as it is. An
  error is an instance of \<^verbatim>\<open>Exception\<close>, which is what the handler catches.
\<close>

theorem Question_validate_outcomes:
  "(\<forall>r. solve F q (u_validate q) [current] = Inr r \<and> truthy r
        \<longrightarrow> Question_validate F q current = Inr ())
   \<and> (\<forall>v. solve F q (u_validate q) [current] = Inl (ValidationError v)
        \<longrightarrow> Question_validate F q current = Inl (ValidationError v))
   \<and> (\<forall>e. solve F q (u_validate q) [current] = Inl e
            \<and> isinstance_Exception e \<and> \<not> isinstance_ValidationError e
        \<longrightarrow> Question_validate F q current = Inl (ValidationError current))
   \<and> (\<forall>r. solve F q (u_validate q) [current] = Inr r \<and> \<not> truthy r
        \<longrightarrow> Question_validate F q current = Inl (ValidationError current))
   \<and> (\<forall>i. u_validate q = PFunc i
        \<longrightarrow> solve F q (u_validate q) [current] = F i (answers q) [current])
   \<and> (\<not> callable (u_validate q) \<and> \<not> isinstance_str (u_validate q)
        \<longrightarrow> solve F q (u_validate q) [current] = Inr (u_validate q))"
proof (intro conjI allI impI)
  fix r assume "solve F q (u_validate q) [current] = Inr r \<and> truthy r"
  then show "Question_validate F q current = Inr ()"
    by (simp add: Question_validate_def)
next
  fix v assume "solve F q (u_validate q) [current] = Inl (ValidationError v)"
  then show "Question_validate F q current = Inl (ValidationError v)"
    by (simp add: Question_validate_def)
next
  fix e assume "solve F q (u_validate q) [current] = Inl e
                \<and> isinstance_Exception e \<and> \<not> isinstance_ValidationError e"
  then show "Question_validate F q current = Inl (ValidationError current)"
    by (simp add: Question_validate_def)
next
  fix r assume "solve F q (u_validate q) [current] = Inr r \<and> \<not> truthy r"
  then show "Question_validate F q current = Inl (ValidationError current)"
    by (simp add: Question_validate_def)
next
  fix i assume "u_validate q = PFunc i"
  then show "solve F q (u_validate q) [current] = F i (answers q) [current]"
    by (simp add: solve_def)
next
  assume "\<not> callable (u_validate q) \<and> \<not> isinstance_str (u_validate q)"
  then show "solve F q (u_validate q) [current] = Inr (u_validate q)"
    by (cases "u_validate q") (simp_all add: solve_def)
qed

text \<open>
  The pipeline on the validators of the example store: a predicate that accepts, the same
  predicate rejecting, a validator raising its own \<^verbatim>\<open>ValidationError\<close>, one dividing by zero,
  the predicate raising \<^verbatim>\<open>TypeError\<close> on an integer, and the literal gates \<^verbatim>\<open>True\<close> and
  \<^verbatim>\<open>0\<close>.
\<close>

theorem Question_validate_outcomes_witness:
  "Question_validate example_funs (example_question PNone PNone (PFunc 0)) (PStr ''abc'') = Inr ()
   \<and> Question_validate example_funs (example_question PNone PNone (PFunc 0)) (PStr ''abcd'')
       = Inl (ValidationError (PStr ''abcd''))
   \<and> Question_validate example_funs (example_question PNone PNone (PFunc 1)) (PStr ''abc'')
       = Inl (ValidationError (PStr ''reason''))
   \<and> Question_validate example_funs (example_question PNone PNone (PFunc 2)) (PStr ''abc'')
       = Inl (ValidationError (PStr ''abc''))
   \<and> Question_validate example_funs (example_question PNone PNone (PFunc 0)) (PInt 5)
       = Inl (ValidationError (PInt 5))
   \<and> Question_validate example_funs (example_question PNone PNone (PBool True)) (PInt 5) = Inr ()
   \<and> Question_validate example_funs (example_question PNone PNone (PInt 0)) (PInt 5)
       = Inl (ValidationError (PInt 5))"
proof (intro conjI)
  note T = Question_validate_outcomes
  let ?q = "\<lambda>v. example_question PNone PNone v"
  have u: "u_validate (?q v) = v" "answers (?q v) = Map.empty" for v
    by (simp_all add: example_question_def)
  have s0: "solve example_funs (?q (PFunc 0)) (u_validate (?q (PFunc 0))) [PStr ''abc'']
              = Inr (PBool True)"
    by (simp add: solve_def u example_funs_def)
  show "Question_validate example_funs (?q (PFunc 0)) (PStr ''abc'') = Inr ()"
    using T[of example_funs "?q (PFunc 0)" "PStr ''abc''"] s0 by simp
  have s1: "solve example_funs (?q (PFunc 0)) (u_validate (?q (PFunc 0))) [PStr ''abcd'']
              = Inr (PBool False)"
    by (simp add: solve_def u example_funs_def)
  show "Question_validate example_funs (?q (PFunc 0)) (PStr ''abcd'')
          = Inl (ValidationError (PStr ''abcd''))"
    using T[of example_funs "?q (PFunc 0)" "PStr ''abcd''"] s1 by simp
  have s2: "solve example_funs (?q (PFunc 1)) (u_validate (?q (PFunc 1))) [PStr ''abc'']
              = Inl (ValidationError (PStr ''reason''))"
    by (simp add: solve_def u example_funs_def)
  show "Question_validate example_funs (?q (PFunc 1)) (PStr ''abc'')
          = Inl (ValidationError (PStr ''reason''))"
    using T[of example_funs "?q (PFunc 1)" "PStr ''abc''"] s2 by simp
  have s3: "solve example_funs (?q (PFunc 2)) (u_validate (?q (PFunc 2))) [PStr ''abc'']
              = Inl (OtherException ''ZeroDivisionError'')"
    by (simp add: solve_def u example_funs_def)
  show "Question_validate example_funs (?q (PFunc 2)) (PStr ''abc'')
          = Inl (ValidationError (PStr ''abc''))"
    using T[of example_funs "?q (PFunc 2)" "PStr ''abc''"] s3 by simp
  have s4: "solve example_funs (?q (PFunc 0)) (u_validate (?q (PFunc 0))) [PInt 5]
              = Inl TypeError"
    by (simp add: solve_def u example_funs_def)
  show "Question_validate example_funs (?q (PFunc 0)) (PInt 5) = Inl (ValidationError (PInt 5))"
    using T[of example_funs "?q (PFunc 0)" "PInt 5"] s4 by simp
  show "Question_validate example_funs (?q (PBool True)) (PInt 5) = Inr ()"
    using T[of example_funs "?q (PBool True)" "PInt 5"] u by simp
  show "Question_validate example_funs (?q (PInt 0)) (PInt 5) = Inl (ValidationError (PInt 5))"
    using T[of example_funs "?q (PInt 0)" "PInt 5"] u by simp
qed

subsection \<open>C2: the default and the recorded answer\<close>

text \<open>
  Claim C2 says that an entry of the context under the question's name is returned by
  \<^verbatim>\<open>default\<close> whatever the configured default is. The property is
  \<^verbatim>\<open>self.answers.get(self.name) or self._solve(self._default)\<close>, so a recorded answer that
  is falsy gives way to the configured default: a confirmation answered \<^verbatim>\<open>False\<close> with the
  configured default \<^verbatim>\<open>True\<close> reads \<^verbatim>\<open>True\<close>.
\<close>

theorem default_claim_counterexample:
  "answers ((example_question PNone (PBool True) (PBool True))\<lparr>answers := [''q'' \<mapsto> PBool False]\<rparr>)
      (name ((example_question PNone (PBool True) (PBool True))\<lparr>answers := [''q'' \<mapsto> PBool False]\<rparr>))
     = Some (PBool False)
   \<and> default example_funs
        ((example_question PNone (PBool True) (PBool True))\<lparr>answers := [''q'' \<mapsto> PBool False]\<rparr>)
       = Inr (PBool True)
   \<and> default example_funs
        ((example_question PNone (PBool True) (PBool True))\<lparr>answers := [''q'' \<mapsto> PBool False]\<rparr>)
       \<noteq> Inr (PBool False)"
  by (simp add: default_def dict_get_def solve_def example_question_def)

text \<open>
  Claim C2, amended. If the context holds a truthy value under the question's name,
  \<^verbatim>\<open>default\<close> returns that value, whatever the configured default resolves to (it is not
  resolved at all). If the context has no entry under the name, or a falsy one,
  \<^verbatim>\<open>default\<close> is the resolution of the configured default.
\<close>

theorem default_prefers_truthy_answer:
  "(\<forall>v. answers q (name q) = Some v \<and> truthy v \<longrightarrow> default F q = Inr v)
   \<and> (answers q (name q) = None \<or> (\<exists>v. answers q (name q) = Some v \<and> \<not> truthy v)
        \<longrightarrow> default F q = solve F q (u_default q) [])"
proof (intro conjI allI impI)
  fix v assume "answers q (name q) = Some v \<and> truthy v"
  then have "dict_get (answers q) (name q) = v" and "truthy v"
    by (simp_all add: dict_get_def)
  then show "default F q = Inr v"
    by (simp add: default_def)
next
  assume "answers q (name q) = None \<or> (\<exists>v. answers q (name q) = Some v \<and> \<not> truthy v)"
  then have "\<not> truthy (dict_get (answers q) (name q))"
    by (auto simp: dict_get_def)
  then show "default F q = solve F q (u_default q) []"
    by (simp add: default_def)
qed

text \<open>A recorded answer that wins, a missing one, and the recorded answer \<^verbatim>\<open>0\<close>.\<close>

theorem default_prefers_truthy_answer_witness:
  "default example_funs
       ((example_question PNone (PStr ''x'') (PBool True))\<lparr>answers := [''q'' \<mapsto> PStr ''old'']\<rparr>)
     = Inr (PStr ''old'')
   \<and> default example_funs (example_question PNone (PInt 7) (PBool True)) = Inr (PInt 7)
   \<and> default example_funs
       ((example_question PNone (PInt 7) (PBool True))\<lparr>answers := [''q'' \<mapsto> PInt 0]\<rparr>)
     = Inr (PInt 7)"
proof (intro conjI)
  note T = default_prefers_truthy_answer
  let ?q1 = "(example_question PNone (PStr ''x'') (PBool True))\<lparr>answers := [''q'' \<mapsto> PStr ''old'']\<rparr>"
  have "answers ?q1 (name ?q1) = Some (PStr ''old'') \<and> truthy (PStr ''old'')"
    by (simp add: example_question_def)
  then show "default example_funs ?q1 = Inr (PStr ''old'')"
    using T[of ?q1 example_funs] by blast
  let ?q2 = "example_question PNone (PInt 7) (PBool True)"
  have a2: "answers ?q2 (name ?q2) = None" by (simp add: example_question_def)
  have "solve example_funs ?q2 (u_default ?q2) [] = Inr (PInt 7)"
    by (simp add: solve_def example_question_def)
  then show "default example_funs ?q2 = Inr (PInt 7)"
    using T[of ?q2 example_funs] a2 by simp
  let ?q3 = "(example_question PNone (PInt 7) (PBool True))\<lparr>answers := [''q'' \<mapsto> PInt 0]\<rparr>"
  have a3: "answers ?q3 (name ?q3) = Some (PInt 0) \<and> \<not> truthy (PInt 0)"
    by (simp add: example_question_def)
  have "solve example_funs ?q3 (u_default ?q3) [] = Inr (PInt 7)"
    by (simp add: solve_def example_question_def)
  then show "default example_funs ?q3 = Inr (PInt 7)"
    using T[of ?q3 example_funs] a3 by auto
qed

subsection \<open>C3: templates\<close>

text \<open>
  Claim C3. Resolving a template, that is a format string written from literal text and
  named placeholders, replaces each placeholder by the string form of the value the
  context records under its name; when the template refers to a name that the context
  lacks, the resolution raises \<^verbatim>\<open>KeyError\<close> for such a name (Python's exception for what
  the specification calls a template resolution error), and \<^verbatim>\<open>_solve\<close> and the property
  \<^verbatim>\<open>message\<close> let it through. The values recorded under the names of the template are
  taken to have a string form.
\<close>

theorem solve_template:
  assumes "list_all valid_chunk cs"
    and "list_all (stringifiable (answers q)) (placeholders cs)"
  shows "(set (placeholders cs) \<subseteq> dom (answers q)
            \<longrightarrow> solve F q (PStr (template_of cs)) args = Inr (PStr (substitute (answers q) cs)))
       \<and> (\<not> set (placeholders cs) \<subseteq> dom (answers q)
            \<longrightarrow> (\<exists>n \<in> set (placeholders cs). answers q n = None
                   \<and> solve F q (PStr (template_of cs)) args = Inl (KeyError n)
                   \<and> message F (q\<lparr>u_message := PStr (template_of cs)\<rparr>) = Inl (KeyError n)))"
proof -
  have fmt: "str_format (template_of cs) (answers q) =
     (case first_absent (answers q) (placeholders cs) of
        None \<Rightarrow> Inr (substitute (answers q) cs)
      | Some n \<Rightarrow> Inl (KeyError n))"
    unfolding str_format_def using assms by (rule str_format_template)
  show ?thesis
  proof (cases "first_absent (answers q) (placeholders cs)")
    case None
    then show ?thesis using fmt first_absent_None[of "answers q" "placeholders cs"]
      by (simp add: solve_def)
  next
    case (Some n)
    then have "n \<in> set (placeholders cs)" "answers q n = None"
      using first_absent_Some by auto
    moreover have "\<not> set (placeholders cs) \<subseteq> dom (answers q)"
      using Some first_absent_None[of "answers q" "placeholders cs"] by simp
    ultimately show ?thesis using fmt Some
      by (auto simp add: solve_def message_def)
  qed
qed

text \<open>The template \<^verbatim>\<open>{x} has {n} {{items}}\<close> in a context with both names, and in one
  without \<^verbatim>\<open>n\<close>.\<close>

theorem solve_template_witness:
  "solve example_funs
       ((example_question PNone PNone (PBool True))\<lparr>answers := [''x'' \<mapsto> PStr ''v'', ''n'' \<mapsto> PInt 42]\<rparr>)
       (PStr ''{x} has {n} {{items}}'') [] = Inr (PStr ''v has 42 {items}'')
   \<and> solve example_funs
       ((example_question PNone PNone (PBool True))\<lparr>answers := [''x'' \<mapsto> PStr ''v'']\<rparr>)
       (PStr ''{x} has {n} {{items}}'') [] = Inl (KeyError ''n'')"
proof -
  let ?cs = "[Placeholder ''x'', Lit '' has '', Placeholder ''n'', Lit '' {items}'']"
  let ?q1 = "(example_question PNone PNone (PBool True))\<lparr>answers := [''x'' \<mapsto> PStr ''v'', ''n'' \<mapsto> PInt 42]\<rparr>"
  let ?q2 = "(example_question PNone PNone (PBool True))\<lparr>answers := [''x'' \<mapsto> PStr ''v'']\<rparr>"
  have t: "template_of ?cs = ''{x} has {n} {{items}}''" by simp
  have v: "list_all valid_chunk ?cs" by (simp add: placeholder_name_def is_digit_def)
  have h1: "list_all (stringifiable (answers ?q1)) (placeholders ?cs)"
    by (simp add: stringifiable_def has_str_def)
  have h2: "list_all (stringifiable (answers ?q2)) (placeholders ?cs)"
    by (simp add: stringifiable_def has_str_def)
  have d1: "set (placeholders ?cs) \<subseteq> dom (answers ?q1)" by simp
  have d2: "\<not> set (placeholders ?cs) \<subseteq> dom (answers ?q2)" by simp
  have s1: "substitute (answers ?q1) ?cs = ''v has 42 {items}''"
    by (simp add: stringified_def str_int_def str_nat.simps digit_char_def)
  have "solve example_funs ?q1 (PStr (template_of ?cs)) [] = Inr (PStr (substitute (answers ?q1) ?cs))"
    using solve_template[OF v h1, of example_funs "[]"] d1 by blast
  then have r1: "solve example_funs ?q1 (PStr ''{x} has {n} {{items}}'') [] = Inr (PStr ''v has 42 {items}'')"
    using t s1 by simp
  obtain n where n: "n \<in> set (placeholders ?cs)" "answers ?q2 n = None"
     "solve example_funs ?q2 (PStr (template_of ?cs)) [] = Inl (KeyError n)"
    using solve_template[OF v h2, of example_funs "[]"] d2 by blast
  from n(1,2) have "n = ''n''" by (auto split: if_splits)
  then have r2: "solve example_funs ?q2 (PStr ''{x} has {n} {{items}}'') [] = Inl (KeyError ''n'')"
    using n(3) t by simp
  show ?thesis using r1 r2 by simp
qed

subsection \<open>C4: the final segment of a path\<close>

text \<open>
  Claim C4 says that, with \<open>exists\<close> unspecified, a candidate that has passed the earlier
  checks is rejected with \<^verbatim>\<open>ValidationError(candidate)\<close> exactly when the final segment of
  the normalized path is empty (path type \<^verbatim>\<open>file\<close>) or not empty (\<^verbatim>\<open>directory\<close>). The
  method has assigned the normalized path to \<^verbatim>\<open>current\<close> before these checks, so the
  error carries the normalized path: on a host whose home directory is \<^verbatim>\<open>/root\<close> the
  candidate \<^verbatim>\<open>~/\<close> of a file question is rejected with \<^verbatim>\<open>ValidationError("/root/")\<close>.
\<close>

theorem Path_validate_claim_counterexample:
  "Question_validate example_funs (example_path (PStr ''file'') PNone (PBool False)) (PStr ''~/'') = Inr ()
   \<and> normalize_value example_os (example_path (PStr ''file'') PNone (PBool False)) (PStr ''~/'') = Inr ''/root/''
   \<and> is_pathname_valid example_os (PStr ''/root/'') = Inr True
   \<and> os_basename example_os ''/root/'' = []
   \<and> Path_validate example_funs example_os (example_path (PStr ''file'') PNone (PBool False)) (PStr ''~/'')
        = Inl (ValidationError (PStr ''/root/''))
   \<and> Path_validate example_funs example_os (example_path (PStr ''file'') PNone (PBool False)) (PStr ''~/'')
        \<noteq> Inl (ValidationError (PStr ''~/''))"
  by code_simp

text \<open>
  Claim C4, amended. For a path question with \<open>exists\<close> unspecified and a candidate that
  passes the base validation, is not \<^verbatim>\<open>None\<close>, and whose normalized path \<open>p\<close> is a valid
  pathname: with path type \<^verbatim>\<open>file\<close>, \<^verbatim>\<open>validate\<close> raises \<^verbatim>\<open>ValidationError(p)\<close> when the
  final segment of \<open>p\<close> is empty and returns otherwise; with path type \<^verbatim>\<open>directory\<close>, it
  raises \<^verbatim>\<open>ValidationError(p)\<close> when the final segment of \<open>p\<close> is not empty and returns
  otherwise. The error carries the normalized path, which is the candidate when
  normalization leaves it unchanged.
\<close>

theorem Path_validate_final_segment:
  assumes "Question_validate F q c = Inr ()" and "c \<noteq> PNone"
    and "normalize_value sys q c = Inr p" and "is_pathname_valid sys (PStr p) = Inr True"
    and "u_exists q = PNone"
  shows "(u_path_type q = PStr ''file'' \<longrightarrow>
            Path_validate F sys q c =
              (if os_basename sys p = [] then Inl (ValidationError (PStr p)) else Inr ()))
       \<and> (u_path_type q = PStr ''directory'' \<longrightarrow>
            Path_validate F sys q c =
              (if os_basename sys p \<noteq> [] then Inl (ValidationError (PStr p)) else Inr ()))"
proof (intro conjI impI)
  have checks: "Path_validate F sys q c = Path_check sys q p"
    using assms(1-4) by (rule Path_validate_steps)
  {
    assume "u_path_type q = PStr ''file''"
    then show "Path_validate F sys q c =
                 (if os_basename sys p = [] then Inl (ValidationError (PStr p)) else Inr ())"
      using assms(5) checks by (simp add: Path_check_def)
  }
  {
    assume "u_path_type q = PStr ''directory''"
    then show "Path_validate F sys q c =
                 (if os_basename sys p \<noteq> [] then Inl (ValidationError (PStr p)) else Inr ())"
      using assms(5) checks by (simp add: Path_check_def)
  }
qed

text \<open>The paths \<^verbatim>\<open>a/b/\<close> and \<^verbatim>\<open>a/b\<close> for a file question and for a directory question.\<close>

theorem Path_validate_final_segment_witness:
  "Path_validate example_funs example_os (example_path (PStr ''file'') PNone (PBool False)) (PStr ''a/b/'')
     = Inl (ValidationError (PStr ''a/b/''))
   \<and> Path_validate example_funs example_os (example_path (PStr ''file'') PNone (PBool False)) (PStr ''a/b'')
     = Inr ()
   \<and> Path_validate example_funs example_os (example_path (PStr ''directory'') PNone (PBool False)) (PStr ''a/b/'')
     = Inr ()
   \<and> Path_validate example_funs example_os (example_path (PStr ''directory'') PNone (PBool False)) (PStr ''a/b'')
     = Inl (ValidationError (PStr ''a/b''))"
proof (intro conjI)
  note T = Path_validate_final_segment
  have n: "normalize_value example_os (example_path pt PNone (PBool False)) (PStr ''a/b/'') = Inr ''a/b/''"
          "normalize_value example_os (example_path pt PNone (PBool False)) (PStr ''a/b'') = Inr ''a/b''"
    for pt by (simp_all add: normalize_value_def example_path_def posix_simps)
  have v: "is_pathname_valid example_os (PStr ''a/b/'') = Inr True"
          "is_pathname_valid example_os (PStr ''a/b'') = Inr True"
    by code_simp+
  have e: "u_exists (example_path pt PNone (PBool False)) = PNone"
          "u_path_type (example_path pt PNone (PBool False)) = pt" for pt
    by (simp_all add: example_path_def)
  have b: "os_basename example_os ''a/b/'' = []" "os_basename example_os ''a/b'' = ''b''"
    by (simp_all add: posix_simps)
  note g = example_path_validate
  show "Path_validate example_funs example_os (example_path (PStr ''file'') PNone (PBool False)) (PStr ''a/b/'')
     = Inl (ValidationError (PStr ''a/b/''))"
    using T[where F=example_funs and sys=example_os and c="PStr ''a/b/''" and p="''a/b/''"
          and q="example_path (PStr ''file'') PNone (PBool False)"] g n v e b by simp
  show "Path_validate example_funs example_os (example_path (PStr ''file'') PNone (PBool False)) (PStr ''a/b'')
     = Inr ()"
    using T[where F=example_funs and sys=example_os and c="PStr ''a/b''" and p="''a/b''"
          and q="example_path (PStr ''file'') PNone (PBool False)"] g n v e b by simp
  show "Path_validate example_funs example_os (example_path (PStr ''directory'') PNone (PBool False)) (PStr ''a/b/'')
     = Inr ()"
    using T[where F=example_funs and sys=example_os and c="PStr ''a/b/''" and p="''a/b/''"
          and q="example_path (PStr ''directory'') PNone (PBool False)"] g n v e b by simp
  show "Path_validate example_funs example_os (example_path (PStr ''directory'') PNone (PBool False)) (PStr ''a/b'')
     = Inl (ValidationError (PStr ''a/b''))"
    using T[where F=example_funs and sys=example_os and c="PStr ''a/b''" and p="''a/b''"
          and q="example_path (PStr ''directory'') PNone (PBool False)"] g n v e b by simp
qed

subsection \<open>C5: pathname validity\<close>

text \<open>
  Claim C5. When the root directory of the platform exists, \<^verbatim>\<open>is_pathname_valid\<close> returns
  a boolean for every input. It returns \<^verbatim>\<open>False\<close> for an input that is not a string or is
  empty. For a string that is not empty it returns \<^verbatim>\<open>False\<close> exactly when the probe of
  some segment reports a name fault (too long a name, or the platform's invalid-name code)
  or raises \<^verbatim>\<open>ValueError\<close>, which is caught; every other failure of a probe is ignored,
  and the result is \<^verbatim>\<open>True\<close> when no segment is rejected.
\<close>

theorem is_pathname_valid_total:
  "(os_isdir sys (root_dirname_of sys) \<longrightarrow> (\<exists>b. is_pathname_valid sys v = Inr b))
   \<and> (\<not> isinstance_str v \<or> \<not> truthy v \<longrightarrow> is_pathname_valid sys v = Inr False)
   \<and> (\<forall>s. os_isdir sys (root_dirname_of sys) \<and> s \<noteq> []
         \<longrightarrow> is_pathname_valid sys (PStr s)
               = Inr (\<not> (\<exists>part \<in> set (segments sys s).
                           name_fault_reported sys part \<or> probe sys part = LstatValueError)))"
proof (intro conjI allI impI)
  assume root: "os_isdir sys (root_dirname_of sys)"
  show "\<exists>b. is_pathname_valid sys v = Inr b"
  proof (cases "isinstance_str v \<and> truthy v")
    case True
    then obtain s where "v = PStr s" "s \<noteq> []" by (cases v) auto
    then show ?thesis using is_pathname_valid_str[OF root] by simp
  next
    case False
    then show ?thesis using is_pathname_valid_not_str[of v sys] by auto
  qed
next
  assume "\<not> isinstance_str v \<or> \<not> truthy v"
  then show "is_pathname_valid sys v = Inr False" by (rule is_pathname_valid_not_str)
next
  fix s :: string assume "os_isdir sys (root_dirname_of sys) \<and> s \<noteq> []"
  then show "is_pathname_valid sys (PStr s)
               = Inr (\<not> (\<exists>part \<in> set (segments sys s).
                           name_fault_reported sys part \<or> probe sys part = LstatValueError))"
    using is_pathname_valid_str[of sys s] by (simp add: list_ex_iff)
qed

text \<open>
  On the example host: a short relative path, whose segments do not exist, is valid; a
  name of 256 characters is not; a name with a null character is not; an integer and the
  empty string are not.
\<close>

theorem is_pathname_valid_total_witness:
  "os_isdir example_os (root_dirname_of example_os)
   \<and> is_pathname_valid example_os (PStr ''x/y'') = Inr True
   \<and> is_pathname_valid example_os (PStr (replicate 256 (CHR ''a''))) = Inr False
   \<and> is_pathname_valid example_os (PStr [CHR ''a'', CHR 0x00]) = Inr False
   \<and> is_pathname_valid example_os (PInt 3) = Inr False
   \<and> is_pathname_valid example_os (PStr []) = Inr False"
proof (intro conjI)
  note T = is_pathname_valid_total
  show root: "os_isdir example_os (root_dirname_of example_os)"
    by (simp add: posix_simps)
  have "(\<exists>part \<in> set (segments example_os ''x/y'').
           name_fault_reported example_os part \<or> probe example_os part = LstatValueError) = False"
    by code_simp
  then show "is_pathname_valid example_os (PStr ''x/y'') = Inr True"
    using T[of example_os "PStr ''x/y''"] root by simp
  have "(\<exists>part \<in> set (segments example_os (replicate 256 (CHR ''a''))).
           name_fault_reported example_os part \<or> probe example_os part = LstatValueError) = True"
    by code_simp
  moreover have "replicate 256 (CHR ''a'') \<noteq> []" by code_simp
  ultimately show "is_pathname_valid example_os (PStr (replicate 256 (CHR ''a''))) = Inr False"
    using T[of example_os "PStr (replicate 256 (CHR ''a''))"] root by simp
  have "(\<exists>part \<in> set (segments example_os [CHR ''a'', CHR 0x00]).
           name_fault_reported example_os part \<or> probe example_os part = LstatValueError) = True"
    by code_simp
  then show "is_pathname_valid example_os (PStr [CHR ''a'', CHR 0x00]) = Inr False"
    using T[of example_os "PStr [CHR ''a'', CHR 0x00]"] root by simp
  show "is_pathname_valid example_os (PInt 3) = Inr False"
    using T[of example_os "PInt 3"] by simp
  show "is_pathname_valid example_os (PStr []) = Inr False"
    using T[of example_os "PStr []"] by simp
qed

subsection \<open>C6: the default of a path question\<close>

text \<open>
  Claim C6. The constructor of \<^verbatim>\<open>Path\<close> validates a default that is not \<^verbatim>\<open>None\<close> with the
  question's own \<^verbatim>\<open>validate\<close>, on the object it has just built (whose context is empty):
  without a default the construction succeeds; with a default that passes, it succeeds
  and stores the default; with a default that fails, it fails with an error, which is
  \<^verbatim>\<open>ValueError\<close> when the validation raised \<^verbatim>\<open>ValidationError\<close>. The default stored in the
  object (\<open>d0\<close>) plays no part in the validation.
\<close>

theorem Path_init_validates_default:
  "Path_init F sys n PNone pt ex na kw = Inr (Path_new n PNone pt ex na kw)
   \<and> (d \<noteq> PNone \<and> Path_validate F sys (Path_new n d0 pt ex na kw) d = Inr ()
        \<longrightarrow> Path_init F sys n d pt ex na kw = Inr (Path_new n d pt ex na kw))
   \<and> (d \<noteq> PNone \<and> Path_validate F sys (Path_new n d0 pt ex na kw) d \<noteq> Inr ()
        \<longrightarrow> (\<exists>e. Path_init F sys n d pt ex na kw = Inl e))
   \<and> (\<forall>v d'. d \<noteq> PNone \<and> Text_default d = Inr d'
              \<and> Path_validate F sys (Path_new n d0 pt ex na kw) d = Inl (ValidationError v)
        \<longrightarrow> Path_init F sys n d pt ex na kw = Inl ValueError)"
proof (intro conjI allI impI)
  show "Path_init F sys n PNone pt ex na kw = Inr (Path_new n PNone pt ex na kw)"
    by (simp add: Path_init_eq Text_default_def)
next
  assume a: "d \<noteq> PNone \<and> Path_validate F sys (Path_new n d0 pt ex na kw) d = Inr ()"
  then obtain s where s: "d = PStr s" using Path_validate_needs_str by blast
  then have td: "Text_default d = Inr d" by (simp add: Text_default_def)
  have "Path_validate F sys (Path_new n d pt ex na kw) d = Inr ()"
    using a Path_validate_ignores_default[of F sys n d pt ex na kw d d0] by simp
  then show "Path_init F sys n d pt ex na kw = Inr (Path_new n d pt ex na kw)"
    using a td by (simp add: Path_init_eq)
next
  assume a: "d \<noteq> PNone \<and> Path_validate F sys (Path_new n d0 pt ex na kw) d \<noteq> Inr ()"
  show "\<exists>e. Path_init F sys n d pt ex na kw = Inl e"
  proof (cases "Text_default d")
    case (Inl e)
    then show ?thesis by (simp add: Path_init_eq)
  next
    case (Inr d')
    have "Path_validate F sys (Path_new n d' pt ex na kw) d \<noteq> Inr ()"
      using a Path_validate_ignores_default[of F sys n d' pt ex na kw d d0] by simp
    then obtain e where "Path_validate F sys (Path_new n d' pt ex na kw) d = Inl e"
      by (cases "Path_validate F sys (Path_new n d' pt ex na kw) d") auto
    then show ?thesis using a Inr by (simp add: Path_init_eq)
  qed
next
  fix v d'
  assume a: "d \<noteq> PNone \<and> Text_default d = Inr d'
              \<and> Path_validate F sys (Path_new n d0 pt ex na kw) d = Inl (ValidationError v)"
  then have "Path_validate F sys (Path_new n d' pt ex na kw) d = Inl (ValidationError v)"
    using Path_validate_ignores_default[of F sys n d' pt ex na kw d d0] by simp
  then show "Path_init F sys n d pt ex na kw = Inl ValueError"
    using a by (simp add: Path_init_eq)
qed

text \<open>
  On the example host, \<^verbatim>\<open>Path("p", default="/does/not/exist", exists=True)\<close> fails in the
  constructor, \<^verbatim>\<open>Path("p", default="a/b", path_type="file", exists=True)\<close> is built, and so
  is the same question without a default.
\<close>

theorem Path_init_validates_default_witness:
  "Path_init example_funs example_os ''p'' (PStr ''/does/not/exist'') (PStr ''any'') (PBool True)
       (PBool False) no_kwargs = Inl ValueError
   \<and> Path_init example_funs example_os ''p'' (PStr ''a/b'') (PStr ''file'') (PBool True)
       (PBool False) no_kwargs
     = Inr (Path_new ''p'' (PStr ''a/b'') (PStr ''file'') (PBool True) (PBool False) no_kwargs)
   \<and> Path_init example_funs example_os ''p'' PNone (PStr ''file'') (PBool True)
       (PBool False) no_kwargs
     = Inr (Path_new ''p'' PNone (PStr ''file'') (PBool True) (PBool False) no_kwargs)"
proof (intro conjI)
  note T = Path_init_validates_default
  have "PStr ''/does/not/exist'' \<noteq> PNone
        \<and> Text_default (PStr ''/does/not/exist'') = Inr (PStr ''/does/not/exist'')
        \<and> Path_validate example_funs example_os
              (Path_new ''p'' PNone (PStr ''any'') (PBool True) (PBool False) no_kwargs)
              (PStr ''/does/not/exist'')
            = Inl (ValidationError (PStr ''/does/not/exist''))"
    by code_simp
  then show "Path_init example_funs example_os ''p'' (PStr ''/does/not/exist'') (PStr ''any'')
               (PBool True) (PBool False) no_kwargs = Inl ValueError"
    using T[where F=example_funs and sys=example_os and d="PStr ''/does/not/exist''" and ?d0.0=PNone
          and n="''p''" and pt="PStr ''any''" and ex="PBool True" and na="PBool False" and kw=no_kwargs]
    by blast
  have "PStr ''a/b'' \<noteq> PNone
        \<and> Path_validate example_funs example_os
              (Path_new ''p'' PNone (PStr ''file'') (PBool True) (PBool False) no_kwargs)
              (PStr ''a/b'') = Inr ()"
    by code_simp
  then show "Path_init example_funs example_os ''p'' (PStr ''a/b'') (PStr ''file'') (PBool True)
       (PBool False) no_kwargs
     = Inr (Path_new ''p'' (PStr ''a/b'') (PStr ''file'') (PBool True) (PBool False) no_kwargs)"
    using T[where F=example_funs and sys=example_os and d="PStr ''a/b''" and ?d0.0=PNone
          and n="''p''" and pt="PStr ''file''" and ex="PBool True" and na="PBool False" and kw=no_kwargs]
    by blast
  show "Path_init example_funs example_os ''p'' PNone (PStr ''file'') (PBool True)
       (PBool False) no_kwargs
     = Inr (Path_new ''p'' PNone (PStr ''file'') (PBool True) (PBool False) no_kwargs)"
    using T[where F=example_funs and sys=example_os and d=PNone and ?d0.0=PNone
          and n="''p''" and pt="PStr ''file''" and ex="PBool True" and na="PBool False" and kw=no_kwargs]
    by blast
qed

subsection \<open>C7: the default of a text question\<close>

text \<open>
  Claim C7 says that a text question stores the string form of a default that is neither
  callable nor \<^verbatim>\<open>None\<close>. The constructor tests \<^verbatim>\<open>default and not callable(default)\<close>, the
  truth value of the default: the default \<^verbatim>\<open>0\<close> is stored as the integer, not as
  \<^verbatim>\<open>"0"\<close>.
\<close>

theorem Text_default_claim_counterexample:
  "\<not> callable (PInt 0) \<and> PInt 0 \<noteq> PNone \<and> py_str (PInt 0) = Inr ''0''
   \<and> stored_default (Text_init ''t'' (no_kwargs\<lparr>kw_default := PInt 0\<rparr>)) = Inr (PInt 0)
   \<and> stored_default (Text_init ''t'' (no_kwargs\<lparr>kw_default := PInt 0\<rparr>)) \<noteq> Inr (PStr ''0'')"
  by (simp add: stored_default_def Text_init_def Text_default_def str_int_def str_nat.simps
        digit_char_def)

text \<open>
  Claim C7, amended. A text question, and likewise a password, editor or path question,
  constructed with a default that is truthy and not callable stores the string form of
  that default (and the construction raises what \<^verbatim>\<open>str\<close> raises, if it does); a default
  that is falsy (\<^verbatim>\<open>None\<close>, \<^verbatim>\<open>False\<close>, \<^verbatim>\<open>0\<close>, an empty string, list or tuple) or callable is
  stored unchanged.
\<close>

theorem Text_init_stores_default:
  "(truthy (kw_default kw) \<and> \<not> callable (kw_default kw) \<longrightarrow>
      stored_default (Text_init n kw)
        = (case py_str (kw_default kw) of Inl e \<Rightarrow> Inl e | Inr s \<Rightarrow> Inr (PStr s))
      \<and> stored_default (Password_init n ech kw) = stored_default (Text_init n kw)
      \<and> stored_default (Editor_init n kw) = stored_default (Text_init n kw))
   \<and> (\<not> truthy (kw_default kw) \<or> callable (kw_default kw) \<longrightarrow>
        stored_default (Text_init n kw) = Inr (kw_default kw)
        \<and> stored_default (Password_init n ech kw) = Inr (kw_default kw)
        \<and> stored_default (Editor_init n kw) = Inr (kw_default kw))
   \<and> (\<forall>q. Path_init F sys n (kw_default kw) pt ex na kw = Inr q
         \<longrightarrow> stored_default (Text_init n kw) = Inr (u_default q))"
proof -
  have t: "stored_default (Text_init n kw) = Text_default (kw_default kw)"
    by (simp add: stored_default_def Text_init_def split: sum.splits)
  have p: "stored_default (Password_init n ech kw) = stored_default (Text_init n kw)"
    by (simp add: stored_default_def Password_init_def question.defs split: sum.splits)
  have e: "stored_default (Editor_init n kw) = stored_default (Text_init n kw)"
    by (simp add: Editor_init_def)
  have q: "stored_default (Text_init n kw) = Inr (u_default q)"
    if "Path_init F sys n (kw_default kw) pt ex na kw = Inr q" for q
    using that unfolding t Path_init_eq by (auto split: sum.splits if_splits)
  show ?thesis using q unfolding p e t by (auto simp: Text_default_def)
qed

text \<open>The defaults \<^verbatim>\<open>42\<close>, \<^verbatim>\<open>None\<close>, a function and \<^verbatim>\<open>False\<close>.\<close>

theorem Text_init_stores_default_witness:
  "stored_default (Text_init ''t'' (no_kwargs\<lparr>kw_default := PInt 42\<rparr>)) = Inr (PStr ''42'')
   \<and> stored_default (Password_init ''t'' (PStr ''*'') (no_kwargs\<lparr>kw_default := PInt 42\<rparr>)) = Inr (PStr ''42'')
   \<and> stored_default (Text_init ''t'' (no_kwargs\<lparr>kw_default := PNone\<rparr>)) = Inr PNone
   \<and> stored_default (Text_init ''t'' (no_kwargs\<lparr>kw_default := PFunc 3\<rparr>)) = Inr (PFunc 3)
   \<and> stored_default (Editor_init ''t'' (no_kwargs\<lparr>kw_default := PBool False\<rparr>)) = Inr (PBool False)"
proof (intro conjI)
  note T = Text_init_stores_default
  have s: "py_str (PInt 42) = Inr ''42''"
    by (simp add: str_int_def str_nat.simps digit_char_def)
  show "stored_default (Text_init ''t'' (no_kwargs\<lparr>kw_default := PInt 42\<rparr>)) = Inr (PStr ''42'')"
    using T[of "no_kwargs\<lparr>kw_default := PInt 42\<rparr>" "''t''"] s by simp
  show "stored_default (Password_init ''t'' (PStr ''*'') (no_kwargs\<lparr>kw_default := PInt 42\<rparr>)) = Inr (PStr ''42'')"
    using T[of "no_kwargs\<lparr>kw_default := PInt 42\<rparr>" "''t''" "PStr ''*''"] s by simp
  show "stored_default (Text_init ''t'' (no_kwargs\<lparr>kw_default := PNone\<rparr>)) = Inr PNone"
    using T[of "no_kwargs\<lparr>kw_default := PNone\<rparr>" "''t''"] by simp
  show "stored_default (Text_init ''t'' (no_kwargs\<lparr>kw_default := PFunc 3\<rparr>)) = Inr (PFunc 3)"
    using T[of "no_kwargs\<lparr>kw_default := PFunc 3\<rparr>" "''t''"] by simp
  show "stored_default (Editor_init ''t'' (no_kwargs\<lparr>kw_default := PBool False\<rparr>)) = Inr (PBool False)"
    using T[of "no_kwargs\<lparr>kw_default := PBool False\<rparr>" "''t''"] by simp
qed

subsection \<open>C8: equality of tagged values\<close>

text \<open>
  Claim C8. A tagged value equals \<open>x\<close> exactly when its value equals \<open>x\<close>, on either side
  of \<^verbatim>\<open>==\<close>; two tagged values are equal exactly when their values are, whatever their
  labels, so the pairs labelled \<^verbatim>\<open>Yes\<close> and \<^verbatim>\<open>No\<close> with the value \<^verbatim>\<open>1\<close> are equal; and
  \<^verbatim>\<open>!=\<close> is the negation of \<^verbatim>\<open>==\<close>. Here \<open>x\<close> ranges over the values of the model.
\<close>

theorem TaggedValue_eq_value_only:
  "py_eq (PTagged l v) x = py_eq v x
   \<and> py_eq x (PTagged l v) = py_eq x v
   \<and> py_eq (PTagged l v) x = py_eq x (PTagged l v)
   \<and> py_eq (PTagged l v) (PTagged l' v') = py_eq v v'
   \<and> py_eq (PTagged (PStr ''Yes'') (PInt 1)) (PInt 1)
   \<and> py_eq (PInt 1) (PTagged (PStr ''Yes'') (PInt 1))
   \<and> py_eq (PTagged (PStr ''Yes'') (PInt 1)) (PTagged (PStr ''No'') (PInt 1))
   \<and> \<not> py_ne (PTagged (PStr ''Yes'') (PInt 1)) (PTagged (PStr ''No'') (PInt 1))
   \<and> py_ne (PTagged l v) x = (\<not> py_eq (PTagged l v) x)
   \<and> py_ne x (PTagged l v) = (\<not> py_eq x (PTagged l v))"
proof (intro conjI)
  show "py_eq (PTagged l v) x = py_eq v x" by (rule py_eq_tagged_left)
  show "py_eq x (PTagged l v) = py_eq x v" by (rule py_eq_tagged_right)
  show "py_eq (PTagged l v) x = py_eq x (PTagged l v)" by (rule py_eq_sym)
  show "py_eq (PTagged l v) (PTagged l' v') = py_eq v v'" by simp
  show "py_eq (PTagged (PStr ''Yes'') (PInt 1)) (PInt 1)" by simp
  show "py_eq (PInt 1) (PTagged (PStr ''Yes'') (PInt 1))" by simp
  show "py_eq (PTagged (PStr ''Yes'') (PInt 1)) (PTagged (PStr ''No'') (PInt 1))" by simp
  show "\<not> py_ne (PTagged (PStr ''Yes'') (PInt 1)) (PTagged (PStr ''No'') (PInt 1))" by simp
  show "py_ne (PTagged l v) x = (\<not> py_eq (PTagged l v) x)" by (rule py_ne_tagged_left)
  show "py_ne x (PTagged l v) = (\<not> py_eq x (PTagged l v))" by (rule py_ne_tagged_right)
qed

text \<open>A tagged \<^verbatim>\<open>1\<close> against \<^verbatim>\<open>True\<close>, against a tagged value nested in another, and
  against \<^verbatim>\<open>2\<close>.\<close>

theorem TaggedValue_eq_value_only_witness:
  "py_eq (PTagged (PStr ''Yes'') (PInt 1)) (PBool True)
   \<and> py_eq (PBool True) (PTagged (PStr ''Yes'') (PInt 1))
   \<and> py_eq (PTagged (PStr ''a'') (PTagged (PStr ''b'') (PInt 1))) (PTagged (PStr ''Yes'') (PInt 1))
   \<and> py_ne (PTagged (PStr ''Yes'') (PInt 1)) (PInt 2)"
proof (intro conjI)
  note T = TaggedValue_eq_value_only
  show "py_eq (PTagged (PStr ''Yes'') (PInt 1)) (PBool True)"
    using T[of "PStr ''Yes''" "PInt 1" "PBool True"] by simp
  show "py_eq (PBool True) (PTagged (PStr ''Yes'') (PInt 1))"
    using T[of "PStr ''Yes''" "PInt 1" "PBool True"] by simp
  show "py_eq (PTagged (PStr ''a'') (PTagged (PStr ''b'') (PInt 1))) (PTagged (PStr ''Yes'') (PInt 1))"
    using T[of "PStr ''a''" "PTagged (PStr ''b'') (PInt 1)" "PTagged (PStr ''Yes'') (PInt 1)"] by simp
  show "py_ne (PTagged (PStr ''Yes'') (PInt 1)) (PInt 2)"
    using T[of "PStr ''Yes''" "PInt 1" "PInt 2"] by simp
qed

subsection \<open>C9: choices\<close>

text \<open>
  Claim C9. Reading \<^verbatim>\<open>choices\<close> resolves the choice spec against the context the question
  holds at that moment, and maps each item of the result to a tagged pair when it is a
  tuple of two elements and to itself otherwise; the spec
  \<^verbatim>\<open>[("Yes", 1), ("No", 0), 2]\<close> gives two tagged pairs and \<^verbatim>\<open>2\<close>. Nothing is kept between
  two reads: for a computed spec the result in the context \<open>ctx\<close> is computed from \<open>ctx\<close>,
  so a read after the context has changed sees the change.
\<close>

theorem choices_materialized:
  "choices F q =
     (case solve F q (u_choices q) [] of
        Inl e \<Rightarrow> Inl e
      | Inr r \<Rightarrow> (case py_iter r of
                    Inl e \<Rightarrow> Inl e
                  | Inr items \<Rightarrow> Inr (PList (map tagged_pair_of items))))
   \<and> (\<forall>i ctx items. u_choices q = PFunc i \<and> F i ctx [] = Inr (PList items)
         \<longrightarrow> choices F (q\<lparr>answers := ctx\<rparr>) = Inr (PList (map tagged_pair_of items)))
   \<and> map tagged_pair_of [PTuple [PStr ''Yes'', PInt 1], PTuple [PStr ''No'', PInt 0], PInt 2]
       = [PTagged (PStr ''Yes'') (PInt 1), PTagged (PStr ''No'') (PInt 0), PInt 2]"
proof (intro conjI allI impI)
  show "choices F q =
     (case solve F q (u_choices q) [] of
        Inl e \<Rightarrow> Inl e
      | Inr r \<Rightarrow> (case py_iter r of
                    Inl e \<Rightarrow> Inl e
                  | Inr items \<Rightarrow> Inr (PList (map tagged_pair_of items))))"
    by (simp add: choices_def choices_generator_def choices_loop_map split: sum.splits)
next
  fix i ctx items
  assume "u_choices q = PFunc i \<and> F i ctx [] = Inr (PList items)"
  then show "choices F (q\<lparr>answers := ctx\<rparr>) = Inr (PList (map tagged_pair_of items))"
    by (simp add: choices_def choices_generator_def choices_loop_map solve_def py_iter_def)
next
  show "map tagged_pair_of [PTuple [PStr ''Yes'', PInt 1], PTuple [PStr ''No'', PInt 0], PInt 2]
       = [PTagged (PStr ''Yes'') (PInt 1), PTagged (PStr ''No'') (PInt 0), PInt 2]"
    by (simp add: tagged_pair_of_def)
qed

text \<open>
  The literal spec of the claim, and the computed spec \<^verbatim>\<open>f3\<close> read twice: in the empty
  context, and after the driver has recorded \<^verbatim>\<open>kind = "yn"\<close>.
\<close>

theorem choices_materialized_witness:
  "choices example_funs
     (example_question (PList [PTuple [PStr ''Yes'', PInt 1], PTuple [PStr ''No'', PInt 0], PInt 2])
        PNone (PBool True))
     = Inr (PList [PTagged (PStr ''Yes'') (PInt 1), PTagged (PStr ''No'') (PInt 0), PInt 2])
   \<and> choices example_funs ((example_question (PFunc 3) PNone (PBool True))\<lparr>answers := Map.empty\<rparr>)
     = Inr (PList [PInt 2])
   \<and> choices example_funs
       ((example_question (PFunc 3) PNone (PBool True))\<lparr>answers := [''kind'' \<mapsto> PStr ''yn'']\<rparr>)
     = Inr (PList [PTagged (PStr ''Yes'') (PInt 1), PTagged (PStr ''No'') (PInt 0)])"
proof (intro conjI)
  note T = choices_materialized
  let ?spec = "PList [PTuple [PStr ''Yes'', PInt 1], PTuple [PStr ''No'', PInt 0], PInt 2]"
  have "solve example_funs (example_question ?spec PNone (PBool True))
          (u_choices (example_question ?spec PNone (PBool True))) [] = Inr ?spec"
    by (simp add: solve_def example_question_def)
  then show "choices example_funs (example_question ?spec PNone (PBool True))
     = Inr (PList [PTagged (PStr ''Yes'') (PInt 1), PTagged (PStr ''No'') (PInt 0), PInt 2])"
    using T[of example_funs "example_question ?spec PNone (PBool True)"]
    by (simp add: py_iter_def tagged_pair_of_def)
  let ?q = "example_question (PFunc 3) PNone (PBool True)"
  have u: "u_choices ?q = PFunc 3" by (simp add: example_question_def)
  have "example_funs 3 Map.empty [] = Inr (PList [PInt 2])"
    by (simp add: example_funs_def dict_get_def)
  then have "choices example_funs (?q\<lparr>answers := Map.empty\<rparr>) = Inr (PList (map tagged_pair_of [PInt 2]))"
    using T[of example_funs ?q] u by blast
  then show "choices example_funs (?q\<lparr>answers := Map.empty\<rparr>) = Inr (PList [PInt 2])"
    by (simp add: tagged_pair_of_def)
  have "example_funs 3 [''kind'' \<mapsto> PStr ''yn''] []
          = Inr (PList [PTuple [PStr ''Yes'', PInt 1], PTuple [PStr ''No'', PInt 0]])"
    by (simp add: example_funs_def dict_get_def)
  then have "choices example_funs (?q\<lparr>answers := [''kind'' \<mapsto> PStr ''yn'']\<rparr>)
          = Inr (PList (map tagged_pair_of [PTuple [PStr ''Yes'', PInt 1], PTuple [PStr ''No'', PInt 0]]))"
    using T[of example_funs ?q] u by blast
  then show "choices example_funs (?q\<lparr>answers := [''kind'' \<mapsto> PStr ''yn'']\<rparr>)
     = Inr (PList [PTagged (PStr ''Yes'') (PInt 1), PTagged (PStr ''No'') (PInt 0)])"
    by (simp add: tagged_pair_of_def)
qed

subsection \<open>C10: path types other than file and directory\<close>

text \<open>
  Claim C10. For a path type that equals neither \<^verbatim>\<open>"file"\<close> nor \<^verbatim>\<open>"directory"\<close>, whether
  it is \<^verbatim>\<open>"any"\<close> or a tag the class does not know, the constructor does not reject the
  type: without a default it returns the object, and with a default it succeeds exactly
  when it does for \<^verbatim>\<open>"any"\<close>. \<^verbatim>\<open>validate\<close> behaves as for \<^verbatim>\<open>"any"\<close>: after the checks
  common to all types, it requires the normalized path to exist when \<open>exists\<close> is true,
  not to exist when \<open>exists\<close> is false, and nothing when \<open>exists\<close> is \<^verbatim>\<open>None\<close>.
\<close>

theorem Path_unrecognized_type_is_any:
  assumes "\<not> py_eq pt (PStr ''file'')" and "\<not> py_eq pt (PStr ''directory'')"
  shows "Path_init F sys n PNone pt ex na kw = Inr (Path_new n PNone pt ex na kw)
       \<and> ((\<exists>q. Path_init F sys n d pt ex na kw = Inr q)
            \<longleftrightarrow> (\<exists>q. Path_init F sys n d (PStr ''any'') ex na kw = Inr q))
       \<and> (\<forall>q c. u_path_type q = pt
             \<longrightarrow> Path_validate F sys q c = Path_validate F sys (q\<lparr>u_path_type := PStr ''any''\<rparr>) c)
       \<and> (\<forall>q c p. u_path_type q = pt \<and> Question_validate F q c = Inr () \<and> c \<noteq> PNone
                  \<and> normalize_value sys q c = Inr p \<and> is_pathname_valid sys (PStr p) = Inr True
             \<longrightarrow> Path_validate F sys q c =
                   (if any_policy_accepts sys (u_exists q) p then Inr ()
                    else Inl (ValidationError (PStr p))))"
proof (intro conjI allI impI)
  show "Path_init F sys n PNone pt ex na kw = Inr (Path_new n PNone pt ex na kw)"
    by (simp add: Path_init_eq Text_default_def)
next
  have h: "Path_validate F sys (Path_new n d' pt ex na kw) d
             = Path_validate F sys (Path_new n d' (PStr ''any'') ex na kw) d" for d'
    using assms by (intro Path_validate_depends) simp_all
  show "(\<exists>q. Path_init F sys n d pt ex na kw = Inr q)
            \<longleftrightarrow> (\<exists>q. Path_init F sys n d (PStr ''any'') ex na kw = Inr q)"
    unfolding Path_init_eq h by (auto split: sum.splits)
next
  fix q :: "'a path_question_scheme" and c
  assume "u_path_type q = pt"
  then show "Path_validate F sys q c = Path_validate F sys (q\<lparr>u_path_type := PStr ''any''\<rparr>) c"
    using assms by (intro Path_validate_depends) simp_all
next
  fix q :: "'b path_question_scheme" and c p
  assume a: "u_path_type q = pt \<and> Question_validate F q c = Inr () \<and> c \<noteq> PNone
                  \<and> normalize_value sys q c = Inr p \<and> is_pathname_valid sys (PStr p) = Inr True"
  then have "Path_validate F sys q c = Path_check sys q p"
    using Path_validate_steps[of F q c sys p] by simp
  then show "Path_validate F sys q c =
                   (if any_policy_accepts sys (u_exists q) p then Inr ()
                    else Inl (ValidationError (PStr p)))"
    using a assms by (auto simp add: Path_check_def any_policy_accepts_def)
qed

text \<open>
  The path type \<^verbatim>\<open>"folder"\<close> on the example host: the question is built; with
  \<^verbatim>\<open>exists=True\<close> the existing \<^verbatim>\<open>a/b\<close> passes and \<^verbatim>\<open>nope\<close> does not; with
  \<^verbatim>\<open>exists=False\<close> it is the other way round; with \<^verbatim>\<open>exists=None\<close> both pass.
\<close>

theorem Path_unrecognized_type_is_any_witness:
  "Path_init example_funs example_os ''p'' PNone (PStr ''folder'') (PBool True) (PBool False) no_kwargs
     = Inr (example_path (PStr ''folder'') (PBool True) (PBool False))
   \<and> Path_validate example_funs example_os (example_path (PStr ''folder'') (PBool True) (PBool False))
       (PStr ''a/b'') = Inr ()
   \<and> Path_validate example_funs example_os (example_path (PStr ''folder'') (PBool True) (PBool False))
       (PStr ''nope'') = Inl (ValidationError (PStr ''nope''))
   \<and> Path_validate example_funs example_os (example_path (PStr ''folder'') (PBool False) (PBool False))
       (PStr ''a/b'') = Inl (ValidationError (PStr ''a/b''))
   \<and> Path_validate example_funs example_os (example_path (PStr ''folder'') (PBool False) (PBool False))
       (PStr ''nope'') = Inr ()
   \<and> Path_validate example_funs example_os (example_path (PStr ''folder'') PNone (PBool False))
       (PStr ''nope'') = Inr ()"
proof (intro conjI)
  have f: "\<not> py_eq (PStr ''folder'') (PStr ''file'')" "\<not> py_eq (PStr ''folder'') (PStr ''directory'')"
    by simp_all
  note T = Path_unrecognized_type_is_any[OF f, where F=example_funs and sys=example_os
      and n="''p''" and ex="PBool True" and na="PBool False" and kw=no_kwargs and d=PNone]
  have n: "normalize_value example_os (example_path pt ex (PBool False)) (PStr ''a/b'') = Inr ''a/b''"
          "normalize_value example_os (example_path pt ex (PBool False)) (PStr ''nope'') = Inr ''nope''"
    for pt ex by (simp_all add: normalize_value_def example_path_def posix_simps)
  have v: "is_pathname_valid example_os (PStr ''a/b'') = Inr True"
          "is_pathname_valid example_os (PStr ''nope'') = Inr True"
    by code_simp+
  have e: "u_exists (example_path pt ex (PBool False)) = ex"
          "u_path_type (example_path pt ex (PBool False)) = pt" for pt ex
    by (simp_all add: example_path_def)
  have x: "os_exists example_os ''a/b'' = True" "os_exists example_os ''nope'' = False"
    by code_simp+
  note g = example_path_validate
  show "Path_init example_funs example_os ''p'' PNone (PStr ''folder'') (PBool True) (PBool False) no_kwargs
     = Inr (example_path (PStr ''folder'') (PBool True) (PBool False))"
    using T[THEN conjunct1] by (simp add: example_path_def)
  have k: "Path_validate example_funs example_os (example_path (PStr ''folder'') ex (PBool False)) (PStr s)
             = (if any_policy_accepts example_os ex p then Inr () else Inl (ValidationError (PStr p)))"
    if "normalize_value example_os (example_path (PStr ''folder'') ex (PBool False)) (PStr s) = Inr p"
      and "is_pathname_valid example_os (PStr p) = Inr True" for ex s p
    using T[THEN conjunct2, THEN conjunct2, THEN conjunct2, rule_format,
            of "example_path (PStr ''folder'') ex (PBool False)" "PStr s" p] that g e
    by simp
  show "Path_validate example_funs example_os (example_path (PStr ''folder'') (PBool True) (PBool False))
       (PStr ''a/b'') = Inr ()"
    using k[OF n(1) v(1)] x by (simp add: any_policy_accepts_def)
  show "Path_validate example_funs example_os (example_path (PStr ''folder'') (PBool True) (PBool False))
       (PStr ''nope'') = Inl (ValidationError (PStr ''nope''))"
    using k[OF n(2) v(2)] x by (simp add: any_policy_accepts_def)
  show "Path_validate example_funs example_os (example_path (PStr ''folder'') (PBool False) (PBool False))
       (PStr ''a/b'') = Inl (ValidationError (PStr ''a/b''))"
    using k[OF n(1) v(1)] x by (simp add: any_policy_accepts_def)
  show "Path_validate example_funs example_os (example_path (PStr ''folder'') (PBool False) (PBool False))
       (PStr ''nope'') = Inr ()"
    using k[OF n(2) v(2)] x by (simp add: any_policy_accepts_def)
  show "Path_validate example_funs example_os (example_path (PStr ''folder'') PNone (PBool False))
       (PStr ''nope'') = Inr ()"
    using k[OF n(2) v(2)] by (simp add: any_policy_accepts_def)
qed

end
